theory Spec2Isabelle
  imports Main "HOL-Library.Word"
begin

section \<open>JavaScript strings and errors\<close>

text \<open>
  A JavaScript string is a sequence of UTF-16 code units. String literals of the
  source are written \<open>js ''...''\<close>. An exception is a value of \<open>error\<close>; a function
  of the source that can throw returns \<open>error + 'a\<close>, with \<open>Inl\<close> the exception.
\<close>

type_synonym jstring = "16 word list"

definition js :: "string \<Rightarrow> jstring" where
  "js s = map of_char s"

datatype error =
    TypeError
  | URIError
  | Error jstring
  | Diverges

text \<open>
  \<open>Diverges\<close> is no exception of the source: \<open>Inl Diverges\<close> is the result of a
  call that does not return (the loop of \<open>TableOfContents.as_list\<close> can run for
  ever). Nothing in the source catches it: the one \<open>try\<close> of the renderer wraps a
  callback only.
\<close>

definition bind :: "error + 'a \<Rightarrow> ('a \<Rightarrow> error + 'b) \<Rightarrow> error + 'b" where
  "bind m f = (case m of Inl e \<Rightarrow> Inl e | Inr x \<Rightarrow> f x)"

text \<open>\<open>xs.map(f)\<close> where \<open>f\<close> may throw: the first exception ends the traversal.\<close>

fun mapM :: "('a \<Rightarrow> error + 'b) \<Rightarrow> 'a list \<Rightarrow> error + 'b list" where
  "mapM f [] = Inr []"
| "mapM f (x # xs) =
     (case f x of Inl e \<Rightarrow> Inl e
      | Inr y \<Rightarrow> (case mapM f xs of Inl e \<Rightarrow> Inl e | Inr ys \<Rightarrow> Inr (y # ys)))"

text \<open>
  \<open>String.prototype.toLowerCase\<close>, on the ASCII letters. The Unicode case tables are
  not embedded: a code unit outside \<open>A..Z\<close> is left as it is.
\<close>

definition lower_unit :: "16 word \<Rightarrow> 16 word" where
  "lower_unit c = (if 65 \<le> c \<and> c \<le> 90 then c + 32 else c)"

definition toLowerCase :: "jstring \<Rightarrow> jstring" where
  "toLowerCase s = map lower_unit s"

section \<open>The Markdown AST (markdown.mjs)\<close>

text \<open>
  \<open>class Reference\<close>: \<open>url\<close> and \<open>tooltip\<close> are strings or \<open>undefined\<close> (\<open>None\<close>).
\<close>

record reference =
  url :: "jstring option"
  tooltip :: "jstring option"

datatype TableAlignment = NONE | LEFT | CENTER | RIGHT

text \<open>
  The classes of markdown.mjs, one constructor per class, with the fields the class
  stores. \<open>nodes\<close> is always the first list. \<open>BlockCode\<close> passes \<open>[]\<close> to its
  superclass and overrides \<open>push\<close>, so its \<open>nodes\<close> stay empty and are left out.
  The upward pointers \<open>TableRow.table\<close> and \<open>TableEntry.row\<close> are not stored:
  a row is read with the alignments of the table that holds it.
  \<^item> \<open>Emoji content skin_tone\<close>, \<open>skin_tone\<close> a number or \<open>null\<close>;
  \<^item> \<open>Link nodes ref ref_name\<close>, and the same for \<open>Image\<close>;
  \<^item> \<open>Heading nodes level\<close>, \<open>level\<close> the stored string;
  \<^item> \<open>BlockCode code language\<close>;
  \<^item> \<open>List nodes ordered ordered_start\<close>;
  \<^item> \<open>ListEntry nodes sublists checked\<close>, \<open>checked\<close> a boolean or \<open>null\<close>;
  \<^item> \<open>InlineLatex nodes raw display_mode\<close>;
  \<^item> \<open>Table nodes alignments\<close>.
\<close>

datatype node =
    Text jstring
  | Emoji jstring "int option"
  | InlineCode jstring
  | InlineLink jstring
  | Comment "node list"
  | Italic "node list"
  | Bold "node list"
  | Underline "node list"
  | Strikethrough "node list"
  | Highlight "node list"
  | Spoiler "node list"
  | Link "node list" reference jstring
  | Image "node list" reference jstring
  | Heading "node list" jstring
  | Paragraph "node list"
  | BlockCode jstring "jstring option"
  | BlockQuote "node list"
  | HORIZONTAL_RULE
  | List "node list" bool int
  | ListEntry "node list" "node list" "bool option"
  | InlineHTML "node list"
  | InlineLatex "node list" jstring bool
  | Table "node list" "TableAlignment list"
  | TableRow "node list"
  | TableEntry "node list"
  | TableOfContents "node list"

text \<open>\<open>n instanceof Text\<close>: \<open>Text\<close> and its subclasses.\<close>

fun is_Text :: "node \<Rightarrow> bool" where
  "is_Text (Text _) = True"
| "is_Text (Emoji _ _) = True"
| "is_Text (InlineCode _) = True"
| "is_Text (InlineLink _) = True"
| "is_Text _ = False"

text \<open>
  \<open>n instanceof Element\<close>: every class but \<open>Text\<close>, its subclasses and the frozen
  object \<open>HORIZONTAL_RULE\<close>.
\<close>

fun is_Element :: "node \<Rightarrow> bool" where
  "is_Element (Text _) = False"
| "is_Element (Emoji _ _) = False"
| "is_Element (InlineCode _) = False"
| "is_Element (InlineLink _) = False"
| "is_Element HORIZONTAL_RULE = False"
| "is_Element _ = True"

fun is_ListEntry :: "node \<Rightarrow> bool" where
  "is_ListEntry (ListEntry _ _ _) = True"
| "is_ListEntry _ = False"

text \<open>
  \<open>is_linebreak()\<close>: \<open>Text\<close> compares its content with \<open>"  \n"\<close>; \<open>Emoji\<close>,
  \<open>InlineCode\<close> and \<open>InlineLink\<close> override it with \<open>false\<close>. The source calls it
  behind \<open>instanceof Text\<close> only.
\<close>

fun is_linebreak :: "node \<Rightarrow> bool" where
  "is_linebreak (Text content) = (content = js ''  \<newline>'')"
| "is_linebreak _ = False"

definition LINEBREAK :: node where
  "LINEBREAK = Text (js ''  \<newline>'')"

definition purge_linebreaks :: "node list \<Rightarrow> node list" where
  "purge_linebreaks nodes = filter (\<lambda>node. \<not> (is_Text node \<and> is_linebreak node)) nodes"

subsection \<open>Constructors\<close>

text \<open>
  An element of an array given to a constructor is a string or a node. The \<open>nodes\<close>
  argument of \<open>Element\<close> is \<open>undefined\<close> (the default \<open>[]\<close> applies), a string, one
  node, or an array.
\<close>

datatype item = IString jstring | INode node

datatype nodes_arg = AUndefined | AString jstring | ANode node | AArray "item list"

definition item_node :: "item \<Rightarrow> node" where
  "item_node i = (case i of IString s \<Rightarrow> Text s | INode n \<Rightarrow> n)"

text \<open>
  \<open>Element.constructor(nodes = [], allow_linebreaks = true)\<close>, returning \<open>this.nodes\<close>.
  A string or an \<open>Element\<close> is wrapped in an array; any other value that is not an
  array (a \<open>Text\<close>, \<open>HORIZONTAL_RULE\<close>) has no \<open>map\<close>, and the call \<open>nodes.map\<close> throws
  a TypeError.
\<close>

definition Element_new :: "nodes_arg \<Rightarrow> bool \<Rightarrow> error + node list" where
  "Element_new nodes allow_linebreaks =
     (case (case nodes of
              AUndefined \<Rightarrow> Inr []
            | AString s \<Rightarrow> Inr [IString s]
            | ANode n \<Rightarrow> (if is_Element n then Inr [INode n] else Inl TypeError)
            | AArray xs \<Rightarrow> Inr xs) of
        Inl e \<Rightarrow> Inl e
      | Inr arr \<Rightarrow>
          (let this_nodes = map item_node arr
           in Inr (if \<not> allow_linebreaks then purge_linebreaks this_nodes else this_nodes)))"

definition Comment_new :: "nodes_arg \<Rightarrow> error + node" where
  "Comment_new comment = bind (Element_new comment True) (\<lambda>ns. Inr (Comment ns))"

definition Italic_new :: "nodes_arg \<Rightarrow> error + node" where
  "Italic_new content = bind (Element_new content True) (\<lambda>ns. Inr (Italic ns))"

definition Bold_new :: "nodes_arg \<Rightarrow> error + node" where
  "Bold_new content = bind (Element_new content True) (\<lambda>ns. Inr (Bold ns))"

definition Underline_new :: "nodes_arg \<Rightarrow> error + node" where
  "Underline_new content = bind (Element_new content True) (\<lambda>ns. Inr (Underline ns))"

definition Strikethrough_new :: "nodes_arg \<Rightarrow> error + node" where
  "Strikethrough_new content = bind (Element_new content False) (\<lambda>ns. Inr (Strikethrough ns))"

definition Highlight_new :: "nodes_arg \<Rightarrow> error + node" where
  "Highlight_new content = bind (Element_new content False) (\<lambda>ns. Inr (Highlight ns))"

definition Spoiler_new :: "nodes_arg \<Rightarrow> error + node" where
  "Spoiler_new content = bind (Element_new content False) (\<lambda>ns. Inr (Spoiler ns))"

text \<open>
  \<open>Link.constructor(url, title, tooltip, reference)\<close>: a title that is \<open>undefined\<close>
  or \<open>""\<close> is replaced by \<open>new Text(url)\<close>, and that value goes to
  \<open>super(title, false)\<close>.
\<close>

definition Link_fields :: "jstring \<Rightarrow> nodes_arg \<Rightarrow> jstring option \<Rightarrow> jstring option
    \<Rightarrow> error + (node list \<times> reference \<times> jstring)" where
  "Link_fields u title tip reference =
     (let title = (if title = AUndefined \<or> title = AString [] then ANode (Text u) else title);
          reference = (case reference of None \<Rightarrow> [] | Some r \<Rightarrow> r)
      in bind (Element_new title False)
           (\<lambda>ns. Inr (ns, \<lparr>url = Some u, tooltip = tip\<rparr>, toLowerCase reference)))"

definition Link_new :: "jstring \<Rightarrow> nodes_arg \<Rightarrow> jstring option \<Rightarrow> jstring option \<Rightarrow> error + node" where
  "Link_new u title tip reference =
     bind (Link_fields u title tip reference) (\<lambda>(ns, r, name). Inr (Link ns r name))"

definition Image_new :: "jstring \<Rightarrow> nodes_arg \<Rightarrow> jstring option \<Rightarrow> jstring option \<Rightarrow> error + node" where
  "Image_new u alt tip reference =
     bind (Link_fields u alt tip reference) (\<lambda>(ns, r, name). Inr (Image ns r name))"

definition Heading_new :: "nodes_arg \<Rightarrow> jstring \<Rightarrow> error + node" where
  "Heading_new nodes level = bind (Element_new nodes False) (\<lambda>ns. Inr (Heading ns level))"

definition Paragraph_new :: "nodes_arg \<Rightarrow> error + node" where
  "Paragraph_new nodes = bind (Element_new nodes True) (\<lambda>ns. Inr (Paragraph ns))"

text \<open>
  \<open>ListEntry.constructor(nodes, sublists = [], checked = null)\<close>; \<open>sublists\<close> is an
  array, or \<open>null\<close>/\<open>undefined\<close> (\<open>None\<close>), which becomes \<open>[]\<close>.
\<close>

definition ListEntry_new :: "nodes_arg \<Rightarrow> node list option \<Rightarrow> bool option \<Rightarrow> error + node" where
  "ListEntry_new nodes sublists checked =
     bind (Element_new nodes False)
       (\<lambda>ns. Inr (ListEntry ns (case sublists of None \<Rightarrow> [] | Some s \<Rightarrow> s) checked))"

text \<open>
  \<open>List.constructor(entries, ordered, ordered_start = 1)\<close>: an entry that is not a
  \<open>ListEntry\<close> goes through \<open>new ListEntry([entry], null)\<close>.
\<close>

definition List_wrap :: "item \<Rightarrow> error + item" where
  "List_wrap entry =
     (case entry of
        INode (ListEntry ns subs c) \<Rightarrow> Inr entry
      | _ \<Rightarrow> bind (ListEntry_new (AArray [entry]) None None) (\<lambda>e. Inr (INode e)))"

definition List_new :: "item list \<Rightarrow> bool \<Rightarrow> int option \<Rightarrow> error + node" where
  "List_new entries ordered ordered_start =
     bind (mapM List_wrap entries)
       (\<lambda>wrapped. bind (Element_new (AArray wrapped) True)
          (\<lambda>ns. Inr (List ns ordered (case ordered_start of None \<Rightarrow> 1 | Some k \<Rightarrow> k))))"

subsection \<open>push and get_last\<close>

text \<open>
  \<open>Element.push(node)\<close>, inherited by every subclass of \<open>Element\<close> but \<open>List\<close> and
  \<open>BlockCode\<close>, which override it: a string becomes a \<open>Text\<close>, and the node is
  appended to \<open>this.nodes\<close>. A value that is no \<open>Element\<close> has no such method.
\<close>

fun Element_push :: "node \<Rightarrow> item \<Rightarrow> error + node" where
  "Element_push (Comment ns) x = Inr (Comment (ns @ [item_node x]))"
| "Element_push (Italic ns) x = Inr (Italic (ns @ [item_node x]))"
| "Element_push (Bold ns) x = Inr (Bold (ns @ [item_node x]))"
| "Element_push (Underline ns) x = Inr (Underline (ns @ [item_node x]))"
| "Element_push (Strikethrough ns) x = Inr (Strikethrough (ns @ [item_node x]))"
| "Element_push (Highlight ns) x = Inr (Highlight (ns @ [item_node x]))"
| "Element_push (Spoiler ns) x = Inr (Spoiler (ns @ [item_node x]))"
| "Element_push (Link ns r name) x = Inr (Link (ns @ [item_node x]) r name)"
| "Element_push (Image ns r name) x = Inr (Image (ns @ [item_node x]) r name)"
| "Element_push (Heading ns level) x = Inr (Heading (ns @ [item_node x]) level)"
| "Element_push (Paragraph ns) x = Inr (Paragraph (ns @ [item_node x]))"
| "Element_push (BlockQuote ns) x = Inr (BlockQuote (ns @ [item_node x]))"
| "Element_push (List ns ord start) x = Inr (List (ns @ [item_node x]) ord start)"
| "Element_push (ListEntry ns subs c) x = Inr (ListEntry (ns @ [item_node x]) subs c)"
| "Element_push (InlineHTML ns) x = Inr (InlineHTML (ns @ [item_node x]))"
| "Element_push (InlineLatex ns raw dm) x = Inr (InlineLatex (ns @ [item_node x]) raw dm)"
| "Element_push (Table ns al) x = Inr (Table (ns @ [item_node x]) al)"
| "Element_push (TableRow ns) x = Inr (TableRow (ns @ [item_node x]))"
| "Element_push (TableEntry ns) x = Inr (TableEntry (ns @ [item_node x]))"
| "Element_push (TableOfContents ns) x = Inr (TableOfContents (ns @ [item_node x]))"
| "Element_push _ x = Inl TypeError"

text \<open>
  \<open>List.push(node)\<close>: a node that is no \<open>ListEntry\<close> is wrapped, a \<open>List\<close> by
  \<open>new ListEntry("", [node])\<close> and anything else by \<open>new ListEntry([node])\<close>; then
  \<open>super.push(node)\<close>.
\<close>

definition List_push :: "node \<Rightarrow> item \<Rightarrow> error + node" where
  "List_push this x =
     (case x of
        INode (ListEntry ns subs c) \<Rightarrow> Element_push this x
      | INode (List ns ord start) \<Rightarrow>
          bind (ListEntry_new (AString []) (Some [List ns ord start]) None)
            (\<lambda>e. Element_push this (INode e))
      | _ \<Rightarrow> bind (ListEntry_new (AArray [x]) None None) (\<lambda>e. Element_push this (INode e)))"

text \<open>The \<open>nodes\<close> of an element; \<open>None\<close> for a value that has no such field.\<close>

fun nodes_of :: "node \<Rightarrow> node list option" where
  "nodes_of (Comment ns) = Some ns"
| "nodes_of (Italic ns) = Some ns"
| "nodes_of (Bold ns) = Some ns"
| "nodes_of (Underline ns) = Some ns"
| "nodes_of (Strikethrough ns) = Some ns"
| "nodes_of (Highlight ns) = Some ns"
| "nodes_of (Spoiler ns) = Some ns"
| "nodes_of (Link ns r name) = Some ns"
| "nodes_of (Image ns r name) = Some ns"
| "nodes_of (Heading ns level) = Some ns"
| "nodes_of (Paragraph ns) = Some ns"
| "nodes_of (BlockCode code language) = Some []"
| "nodes_of (BlockQuote ns) = Some ns"
| "nodes_of (List ns ord start) = Some ns"
| "nodes_of (ListEntry ns subs c) = Some ns"
| "nodes_of (InlineHTML ns) = Some ns"
| "nodes_of (InlineLatex ns raw dm) = Some ns"
| "nodes_of (Table ns al) = Some ns"
| "nodes_of (TableRow ns) = Some ns"
| "nodes_of (TableEntry ns) = Some ns"
| "nodes_of (TableOfContents ns) = Some ns"
| "nodes_of _ = None"

text \<open>
  \<open>List.get_last()\<close> is \<open>this.nodes[this.nodes.length - 1]\<close>: \<open>undefined\<close> (\<open>None\<close>) on
  an empty list.
\<close>

definition get_last :: "node \<Rightarrow> node option" where
  "get_last this =
     (case nodes_of this of
        None \<Rightarrow> None
      | Some ns \<Rightarrow> (if ns = [] then None else Some (ns ! (length ns - 1))))"

text \<open>A sequence of calls of \<open>push\<close> on one list, each on the result of the one before.\<close>

fun List_pushes :: "node \<Rightarrow> item list \<Rightarrow> error + node" where
  "List_pushes this [] = Inr this"
| "List_pushes this (x # xs) = bind (List_push this x) (\<lambda>this'. List_pushes this' xs)"


text \<open>The values that the constructor and \<open>push\<close> of \<open>List\<close> return.\<close>

lemma mapM_total: "(\<And>x. f x = Inr (g x)) \<Longrightarrow> mapM f xs = Inr (map g xs)"
  by (induction xs) simp_all

lemma List_wrap_value:
  "List_wrap e = Inr (INode (case e of INode (ListEntry a b c) \<Rightarrow> ListEntry a b c
                            | _ \<Rightarrow> ListEntry (purge_linebreaks [item_node e]) [] None))"
  by (simp add: List_wrap_def ListEntry_new_def Element_new_def bind_def
      split: item.splits node.splits)

lemma List_new_value:
  "List_new entries ord start =
     Inr (List (map (\<lambda>e. case e of INode (ListEntry a b c) \<Rightarrow> ListEntry a b c
                        | _ \<Rightarrow> ListEntry (purge_linebreaks [item_node e]) [] None) entries)
            ord (case start of None \<Rightarrow> 1 | Some k \<Rightarrow> k))"
  by (simp add: List_new_def mapM_total [OF List_wrap_value] bind_def Element_new_def
      item_node_def comp_def)

lemma List_push_value:
  "List_push (List ns ord st) x =
     Inr (List (ns @ [case x of
                        INode (ListEntry a b c) \<Rightarrow> ListEntry a b c
                      | INode (List a b c) \<Rightarrow> ListEntry [Text []] [List a b c] None
                      | _ \<Rightarrow> ListEntry (purge_linebreaks [item_node x]) [] None]) ord st)"
  by (simp add: List_push_def ListEntry_new_def Element_new_def bind_def item_node_def
      purge_linebreaks_def js_def split: item.splits node.splits)

section \<open>Serialization to Markdown text\<close>

lemma mapM_cong [fundef_cong]:
  "xs = ys \<Longrightarrow> (\<And>x. x \<in> set ys \<Longrightarrow> f x = g x) \<Longrightarrow> mapM f xs = mapM g ys"
  by (induction ys arbitrary: xs) (auto split: sum.splits)

lemma bind_cong [fundef_cong]:
  "m = m' \<Longrightarrow> (\<And>x. m' = Inr x \<Longrightarrow> f x = g x) \<Longrightarrow> bind m f = bind m' g"
  by (auto simp add: bind_def split: sum.splits)

text \<open>\<open>xs.join(sep)\<close> on an array of strings.\<close>

fun join :: "jstring \<Rightarrow> jstring list \<Rightarrow> jstring" where
  "join sep [] = []"
| "join sep [x] = x"
| "join sep (x # y # ys) = x @ sep @ join sep (y # ys)"

text \<open>\<open>s.split("\n")\<close>: the pieces between the newlines, at least one.\<close>

fun split_acc :: "jstring \<Rightarrow> jstring \<Rightarrow> jstring list" where
  "split_acc piece [] = [piece]"
| "split_acc piece (c # cs) =
     (if c = 10 then piece # split_acc [] cs else split_acc (piece @ [c]) cs)"

definition split_lines :: "jstring \<Rightarrow> jstring list" where
  "split_lines s = split_acc [] s"

text \<open>\<open>s.includes(c)\<close> for a string \<open>c\<close> of one code unit.\<close>

definition str_includes :: "jstring \<Rightarrow> 16 word \<Rightarrow> bool" where
  "str_includes s c = (c \<in> set s)"

text \<open>The decimal digits of a natural number, and \<open>String(k)\<close> for an integer.\<close>

fun digits :: "nat \<Rightarrow> jstring" where
  "digits n = (if n < 10 then [of_nat (48 + n)] else digits (n div 10) @ [of_nat (48 + n mod 10)])"

declare digits.simps [simp del]

definition string_of_int :: "int \<Rightarrow> jstring" where
  "string_of_int k = (if k < 0 then js ''-'' @ digits (nat (- k)) else digits (nat k))"


text \<open>\<open>"-".repeat(n)\<close> and the like.\<close>

definition repeat :: "jstring \<Rightarrow> nat \<Rightarrow> jstring" where
  "repeat s n = concat (replicate n s)"

text \<open>
  \<open>Reference.has_tooltip()\<close> is \<open>this.tooltip && this.tooltip !== ""\<close>, read as a
  condition; \<open>Reference.toString()\<close> concatenates \<open>this.url\<close>, which prints as
  \<open>undefined\<close> when it is.
\<close>

definition has_tooltip :: "reference \<Rightarrow> bool" where
  "has_tooltip r = (case tooltip r of None \<Rightarrow> False | Some t \<Rightarrow> t \<noteq> [])"

definition Reference_toString :: "reference \<Rightarrow> jstring" where
  "Reference_toString r =
     (case url r of None \<Rightarrow> js ''undefined'' | Some u \<Rightarrow> u)
     @ (if has_tooltip r then js '' \"'' @ the (tooltip r) @ js ''\"'' else [])"

text \<open>
  \<open>to_string_with_linebreaks\<close>, on the strings of the nodes: a space follows every
  node but the last one and a linebreak.
\<close>

fun with_linebreaks :: "(node \<times> jstring) list \<Rightarrow> jstring list" where
  "with_linebreaks [] = []"
| "with_linebreaks ((node, s) # rest) =
     (s @ (if rest \<noteq> [] \<and> \<not> (is_Text node \<and> is_linebreak node) then js '' '' else []))
     # with_linebreaks rest"

text \<open>The second and later lines of an entry of a list are indented.\<close>

definition indent_rest :: "jstring \<Rightarrow> jstring" where
  "indent_rest s =
     (case split_lines s of
        [] \<Rightarrow> []
      | l # ls \<Rightarrow> join (js ''\<newline>'') (l # map (\<lambda>l. js ''  '' @ l) ls))"

definition indent_all :: "jstring \<Rightarrow> jstring" where
  "indent_all s = join (js ''\<newline>'') (map (\<lambda>line. js ''  '' @ line) (split_lines s))"

text \<open>\<open>TableAlignment\<close>: the fields \<open>name\<close>, \<open>left\<close>, \<open>right\<close> and \<open>to_pretty_string\<close>.\<close>

fun alignment_name :: "TableAlignment \<Rightarrow> jstring" where
  "alignment_name NONE = js ''none''"
| "alignment_name LEFT = js ''left''"
| "alignment_name CENTER = js ''center''"
| "alignment_name RIGHT = js ''right''"

fun alignment_left :: "TableAlignment \<Rightarrow> jstring" where
  "alignment_left NONE = js ''-''"
| "alignment_left LEFT = js '':''"
| "alignment_left CENTER = js '':''"
| "alignment_left RIGHT = js ''-''"

fun alignment_right :: "TableAlignment \<Rightarrow> jstring" where
  "alignment_right NONE = js ''-''"
| "alignment_right LEFT = js ''-''"
| "alignment_right CENTER = js '':''"
| "alignment_right RIGHT = js '':''"

definition to_pretty_string :: "TableAlignment \<Rightarrow> nat \<Rightarrow> jstring" where
  "to_pretty_string a column_length =
     (let column_length = (if column_length < 5 then 5 else column_length)
      in alignment_left a @ repeat (js ''-'') (column_length - 2) @ alignment_right a)"

text \<open>
  The second row of a table: \<open>head_columns[index]\<close> is \<open>undefined\<close> beyond the head
  and falsy when it is \<open>""\<close>; both give the width 5.
\<close>

definition alignments_row :: "TableAlignment list \<Rightarrow> jstring list \<Rightarrow> jstring" where
  "alignments_row als head_columns =
     js ''|''
     @ join (js ''|'')
         (map (\<lambda>(alignment, index).
                 to_pretty_string alignment
                   (if index < length head_columns \<and> head_columns ! index \<noteq> []
                    then length (head_columns ! index) + 2 else 5))
            (zip als [0..<length als]))
     @ js ''|''"

lemma mem_size_le: "x \<in> set xs \<Longrightarrow> size (x::node) \<le> size_list size xs"
  by (simp add: size_list_estimation')

lemma nodes_of_size: "nodes_of n = Some ns \<Longrightarrow> x \<in> set ns \<Longrightarrow> size x < size n"
  by (cases n) (auto dest!: mem_size_le)

text \<open>
  \<open>toString()\<close>, by class. \<open>Heading.toString\<close> builds the content first and then
  throws for a level that is none of \<open>h1\<close> to \<open>h6\<close>; \<open>Table.toString\<close> reads
  \<open>this.get_head().nodes\<close>, a TypeError when there is no first row or it has no
  \<open>nodes\<close>.
\<close>

function toString :: "node \<Rightarrow> error + jstring" where
  "toString (Text content) = Inr content"
| "toString (Emoji content skin_tone) =
     Inr (case skin_tone of
            Some t \<Rightarrow> js '':'' @ content @ js ''::skin-tone-'' @ string_of_int t @ js '':''
          | None \<Rightarrow> js '':'' @ content @ js '':'')"
| "toString (InlineCode content) =
     Inr (if str_includes content 96 then js ''```'' @ content @ js ''```''
          else js ''`'' @ content @ js ''`'')"
| "toString (InlineLink content) = Inr content"
| "toString (Comment ns) = bind (mapM toString ns) (\<lambda>ss. Inr (concat ss))"
| "toString (Italic ns) =
     bind (mapM toString ns)
       (\<lambda>ss. let content = concat ss
             in Inr (if str_includes content 42 then js ''_'' @ content @ js ''_''
                     else js ''*'' @ content @ js ''*''))"
| "toString (Bold ns) = bind (mapM toString ns) (\<lambda>ss. Inr (js ''**'' @ concat ss @ js ''**''))"
| "toString (Underline ns) = bind (mapM toString ns) (\<lambda>ss. Inr (js ''__'' @ concat ss @ js ''__''))"
| "toString (Strikethrough ns) = bind (mapM toString ns) (\<lambda>ss. Inr (js ''~~'' @ concat ss @ js ''~~''))"
| "toString (Highlight ns) = bind (mapM toString ns) (\<lambda>ss. Inr (js ''=='' @ concat ss @ js ''==''))"
| "toString (Spoiler ns) = bind (mapM toString ns) (\<lambda>ss. Inr (js ''||'' @ concat ss @ js ''||''))"
| "toString (Link ns r ref_name) =
     bind (mapM toString ns)
       (\<lambda>ss. let title = concat ss
             in Inr (if ref_name \<noteq> []
                     then (if ref_name = title then js ''['' @ title @ js '']''
                           else js ''['' @ title @ js ''][''  @ ref_name @ js '']'')
                     else js ''['' @ title @ js '']('' @ Reference_toString r @ js '')''))"
| "toString (Image ns r ref_name) =
     bind (mapM toString ns)
       (\<lambda>ss. let title = concat ss
             in Inr (js ''!'' @
                    (if ref_name \<noteq> []
                     then (if ref_name = title then js ''['' @ title @ js '']''
                           else js ''['' @ title @ js ''][''  @ ref_name @ js '']'')
                     else js ''['' @ title @ js '']('' @ Reference_toString r @ js '')'')))"
| "toString (Heading ns level) =
     bind (mapM toString ns)
       (\<lambda>ss. let content = join (js '' '') ss
             in if level = js ''h1'' then Inr (js ''# '' @ content)
                else if level = js ''h2'' then Inr (js ''## '' @ content)
                else if level = js ''h3'' then Inr (js ''### '' @ content)
                else if level = js ''h4'' then Inr (js ''#### '' @ content)
                else if level = js ''h5'' then Inr (js ''##### '' @ content)
                else if level = js ''h6'' then Inr (js ''###### '' @ content)
                else Inl (Error (js ''lib.md ;; Heading#toString(): invalid heading \"''
                                 @ level @ js ''\".'')))"
| "toString (Paragraph ns) = bind (mapM toString ns) (\<lambda>ss. Inr (concat ss))"
| "toString (BlockCode code language) =
     Inr (js ''```''
          @ (case language of
               None \<Rightarrow> js ''\<newline>''
             | Some l \<Rightarrow> (if l \<noteq> [] then l @ js ''\<newline>'' else js ''\<newline>''))
          @ code @ js ''\<newline>```'')"
| "toString (BlockQuote ns) =
     bind (mapM toString ns)
       (\<lambda>ss. Inr (join (js ''\<newline>'')
                    (map (\<lambda>quote. js ''> '' @ quote)
                       (split_lines (concat (with_linebreaks (zip ns ss)))))))"
| "toString HORIZONTAL_RULE = Inr (js ''---'')"
| "toString (List ns ordered ordered_start) =
     bind (mapM toString ns)
       (\<lambda>ss. Inr (join (js ''\<newline>'')
                    (map indent_rest
                       (map (\<lambda>(node, index).
                               if ordered
                               then string_of_int (int index + ordered_start) @ js ''. '' @ node
                               else js ''- '' @ node)
                          (zip ss [0..<length ss])))))"
| "toString (ListEntry ns sublists checked) =
     bind (mapM toString ns)
       (\<lambda>ss. let content = join (js ''\<newline>'') ss;
                 content = (case checked of
                              Some c \<Rightarrow> (if c then js ''[x] '' else js ''[ ] '') @ content
                            | None \<Rightarrow> content)
             in if sublists \<noteq> []
                then bind (mapM toString sublists)
                       (\<lambda>subs. Inr (content @ js ''\<newline>''
                                    @ join (js ''\<newline>'') (map indent_all subs)))
                else Inr content)"
| "toString (InlineHTML ns) = bind (mapM toString ns) (\<lambda>ss. Inr (concat ss))"
| "toString (InlineLatex ns raw display_mode) =
     Inr (if display_mode then js ''$$\<newline>'' @ raw @ js ''\<newline>$$''
          else js ''$'' @ raw @ js ''$'')"
| "toString (Table rows als) =
     (case rows of
        [] \<Rightarrow> Inl TypeError
      | head # body \<Rightarrow>
          (case nodes_of head of
             None \<Rightarrow> Inl TypeError
           | Some columns \<Rightarrow>
               bind (mapM toString columns)
                 (\<lambda>head_columns.
                    bind (mapM toString body)
                      (\<lambda>body_rows.
                         Inr (js ''| '' @ join (js '' | '') head_columns @ js '' |\<newline>''
                              @ alignments_row als head_columns @ js ''\<newline>''
                              @ join (js ''\<newline>'') body_rows)))))"
| "toString (TableRow ns) =
     bind (mapM toString ns) (\<lambda>ss. Inr (js ''| '' @ join (js '' | '') ss @ js '' |''))"
| "toString (TableEntry ns) = bind (mapM toString ns) (\<lambda>ss. Inr (concat ss))"
| "toString (TableOfContents ns) = Inr (js ''[[ToC]]'')"
  by pat_completeness auto
termination
  by (relation "measure size") (auto dest: nodes_of_size mem_size_le)

subsection \<open>The document\<close>

text \<open>
  \<open>get_references(element)\<close> returns \<open>undefined\<close>, one object \<open>{name, ref}\<close>, or an
  array. \<open>flat()\<close> splices the arrays among the elements of an array, one level deep.
\<close>

datatype refs = RUndefined | RObject jstring reference | RArray "refs list"

definition flat :: "refs list \<Rightarrow> refs list" where
  "flat xs = concat (map (\<lambda>x. case x of RArray ys \<Rightarrow> ys | _ \<Rightarrow> [x]) xs)"

function get_references :: "node \<Rightarrow> refs" where
  "get_references element =
     (case element of
        Link ns r ref_name \<Rightarrow> (if ref_name \<noteq> [] then RObject ref_name r else RUndefined)
      | Image ns r ref_name \<Rightarrow> (if ref_name \<noteq> [] then RObject ref_name r else RUndefined)
      | _ \<Rightarrow>
          (case nodes_of element of
             Some ns \<Rightarrow> RArray (flat (filter (\<lambda>node. node \<noteq> RUndefined) (map get_references ns)))
           | None \<Rightarrow> RUndefined))"
  by pat_completeness auto
termination
  by (relation "measure size") (auto dest: nodes_of_size mem_size_le)

declare get_references.simps [simp del]

text \<open>
  \<open>class MDDocument\<close>: the blocks, and the references as an array of objects
  \<open>{name, ref}\<close>.
\<close>

record MDDocument =
  blocks :: "node list"
  references :: "(jstring \<times> reference) list"

text \<open>\<open>references.concat(v)\<close>: an array is appended element by element, any other value as one element.\<close>

definition concat_refs :: "refs list \<Rightarrow> refs \<Rightarrow> refs list" where
  "concat_refs arr v = arr @ (case v of RArray ys \<Rightarrow> ys | _ \<Rightarrow> [v])"

text \<open>\<open>filter((v, i, arr) => arr.indexOf(v) === i)\<close> keeps the first of equal strings.\<close>

fun first_occurrences :: "jstring list \<Rightarrow> jstring list \<Rightarrow> jstring list" where
  "first_occurrences seen [] = []"
| "first_occurrences seen (v # vs) =
     (if v \<in> set seen then first_occurrences seen vs
      else v # first_occurrences (v # seen) vs)"

text \<open>
  \<open>ref.ref.url\<close> on an element of \<open>references\<close>: a TypeError on \<open>undefined\<close>, and on
  an array, whose \<open>ref\<close> is \<open>undefined\<close>.
\<close>

definition ref_object :: "refs \<Rightarrow> error + (jstring \<times> reference)" where
  "ref_object r = (case r of RObject name rf \<Rightarrow> Inr (name, rf) | _ \<Rightarrow> Inl TypeError)"

definition MDDocument_toString :: "MDDocument \<Rightarrow> error + jstring" where
  "MDDocument_toString this =
     (let all_references =
            fold (\<lambda>block acc. concat_refs acc (get_references block))
              (blocks this) (map (\<lambda>(name, r). RObject name r) (references this))
      in bind (mapM (\<lambda>block. bind (toString block) (\<lambda>s. Inr (s @ js ''\<newline>''))) (blocks this))
           (\<lambda>strings.
              if all_references \<noteq> []
              then bind (mapM ref_object all_references)
                     (\<lambda>objects.
                        Inr (join (js ''\<newline>'') strings @ js ''\<newline>''
                             @ join (js ''\<newline>'')
                                 (first_occurrences []
                                    (map (\<lambda>(name, r). js ''['' @ name @ js '']: '' @ Reference_toString r)
                                       (filter (\<lambda>(name, r). url r \<noteq> None) objects)))
                             @ js ''\<newline>''))
              else Inr (join (js ''\<newline>'') strings)))"

text \<open>
  What serialization needs of a tree: every \<open>Heading\<close> stores one of the six levels,
  and every \<open>Table\<close> has a first row that is an \<open>Element\<close>, as the constructor of
  \<open>Table\<close> provides.
\<close>

definition valid_level :: "jstring \<Rightarrow> bool" where
  "valid_level level =
     (level = js ''h1'' \<or> level = js ''h2'' \<or> level = js ''h3''
      \<or> level = js ''h4'' \<or> level = js ''h5'' \<or> level = js ''h6'')"

fun well_formed :: "node \<Rightarrow> bool" where
  "well_formed (Comment ns) = list_all well_formed ns"
| "well_formed (Italic ns) = list_all well_formed ns"
| "well_formed (Bold ns) = list_all well_formed ns"
| "well_formed (Underline ns) = list_all well_formed ns"
| "well_formed (Strikethrough ns) = list_all well_formed ns"
| "well_formed (Highlight ns) = list_all well_formed ns"
| "well_formed (Spoiler ns) = list_all well_formed ns"
| "well_formed (Link ns r name) = list_all well_formed ns"
| "well_formed (Image ns r name) = list_all well_formed ns"
| "well_formed (Heading ns level) = (valid_level level \<and> list_all well_formed ns)"
| "well_formed (Paragraph ns) = list_all well_formed ns"
| "well_formed (BlockQuote ns) = list_all well_formed ns"
| "well_formed (List ns ord start) = list_all well_formed ns"
| "well_formed (ListEntry ns subs c) = (list_all well_formed ns \<and> list_all well_formed subs)"
| "well_formed (InlineHTML ns) = list_all well_formed ns"
| "well_formed (InlineLatex ns raw dm) = list_all well_formed ns"
| "well_formed (Table rows als) =
     (case rows of [] \<Rightarrow> False | head # body \<Rightarrow> is_Element head \<and> list_all well_formed rows)"
| "well_formed (TableRow ns) = list_all well_formed ns"
| "well_formed (TableEntry ns) = list_all well_formed ns"
| "well_formed (TableOfContents ns) = list_all well_formed ns"
| "well_formed _ = True"

fun is_Link :: "node \<Rightarrow> bool" where
  "is_Link (Link _ _ _) = True"
| "is_Link (Image _ _ _) = True"
| "is_Link _ = False"

text \<open>The arrays that \<open>get_references\<close> returns hold objects only.\<close>

fun is_RObject :: "refs \<Rightarrow> bool" where
  "is_RObject (RObject name r) = True"
| "is_RObject _ = False"

definition refs_ok :: "refs \<Rightarrow> bool" where
  "refs_ok r = (case r of RArray rs \<Rightarrow> list_all is_RObject rs | _ \<Rightarrow> True)"

section \<open>Heading identifiers\<close>

text \<open>The \<open>content\<close> of a \<open>Text\<close> or of one of its subclasses.\<close>

fun content_of :: "node \<Rightarrow> jstring" where
  "content_of (Text content) = content"
| "content_of (Emoji content skin_tone) = content"
| "content_of (InlineCode content) = content"
| "content_of (InlineLink content) = content"
| "content_of _ = []"

text \<open>
  \<open>Element.as_plain_text()\<close>: the content of each \<open>Text\<close>, and \<open>as_plain_text()\<close> of
  every other node, which is a TypeError on a value that has no such method.
\<close>

function as_plain_text :: "node \<Rightarrow> error + jstring" where
  "as_plain_text this =
     (case nodes_of this of
        None \<Rightarrow> Inl TypeError
      | Some ns \<Rightarrow>
          bind (mapM (\<lambda>node. if is_Text node then Inr (content_of node) else as_plain_text node) ns)
            (\<lambda>ss. Inr (concat ss)))"
  by pat_completeness auto
termination
  by (relation "measure size") (auto dest: nodes_of_size)

declare as_plain_text.simps [simp del]

text \<open>
  \<open>encodeURI\<close> (ECMAScript, Encode with the reserved and the unescaped characters and
  \<open>#\<close>): a code unit of the unescaped set is copied; any other code point is written
  as the bytes of its UTF-8 form, each byte as \<open>%\<close> and two upper-case hexadecimal
  digits; a surrogate that is not part of a pair throws a URIError.
\<close>

definition is_upper :: "16 word \<Rightarrow> bool" where
  "is_upper c = (65 \<le> c \<and> c \<le> 90)"

definition is_lower :: "16 word \<Rightarrow> bool" where
  "is_lower c = (97 \<le> c \<and> c \<le> 122)"

definition is_digit :: "16 word \<Rightarrow> bool" where
  "is_digit c = (48 \<le> c \<and> c \<le> 57)"

definition uri_punctuation :: "16 word \<Rightarrow> bool" where
  "uri_punctuation c = (c \<in> set (js '';/?:@&=+$,-_.!~*'()#''))"

definition uri_unescaped :: "16 word \<Rightarrow> bool" where
  "uri_unescaped c = (is_upper c \<or> is_lower c \<or> is_digit c \<or> uri_punctuation c)"

definition hex_digit :: "nat \<Rightarrow> 16 word" where
  "hex_digit n = (if n < 10 then of_nat (48 + n) else of_nat (55 + n))"

definition percent :: "nat \<Rightarrow> jstring" where
  "percent byte = [37, hex_digit (byte div 16), hex_digit (byte mod 16)]"

definition utf8 :: "nat \<Rightarrow> nat list" where
  "utf8 cp =
     (if cp < 128 then [cp]
      else if cp < 2048 then [192 + cp div 64, 128 + cp mod 64]
      else if cp < 65536 then [224 + cp div 4096, 128 + (cp div 64) mod 64, 128 + cp mod 64]
      else [240 + cp div 262144, 128 + (cp div 4096) mod 64, 128 + (cp div 64) mod 64,
            128 + cp mod 64])"

definition is_lead_surrogate :: "16 word \<Rightarrow> bool" where
  "is_lead_surrogate c = (0xD800 \<le> c \<and> c \<le> 0xDBFF)"

definition is_trail_surrogate :: "16 word \<Rightarrow> bool" where
  "is_trail_surrogate c = (0xDC00 \<le> c \<and> c \<le> 0xDFFF)"

definition escape :: "nat \<Rightarrow> jstring" where
  "escape cp = concat (map percent (utf8 cp))"

fun encodeURI :: "jstring \<Rightarrow> error + jstring" where
  "encodeURI [] = Inr []"
| "encodeURI (c # cs) =
     (if uri_unescaped c then bind (encodeURI cs) (\<lambda>r. Inr (c # r))
      else if is_lead_surrogate c then
        (case cs of
           [] \<Rightarrow> Inl URIError
         | d # ds \<Rightarrow>
             (if is_trail_surrogate d
              then bind (encodeURI ds)
                     (\<lambda>r. Inr (escape (65536 + (unat c - 55296) * 1024 + (unat d - 56320)) @ r))
              else Inl URIError))
      else if is_trail_surrogate c then Inl URIError
      else bind (encodeURI cs) (\<lambda>r. Inr (escape (unat c) @ r)))"

text \<open>\<open>s.replace(/%20/g, "-")\<close>: from the left, every \<open>%20\<close> becomes \<open>-\<close>.\<close>

fun replace_pct20 :: "jstring \<Rightarrow> jstring" where
  "replace_pct20 [] = []"
| "replace_pct20 (c # cs) =
     (if c = 37 \<and> take 2 cs = [50, 48] then 45 # replace_pct20 (drop 2 cs)
      else c # replace_pct20 cs)"

text \<open>
  \<open>toLocaleLowerCase()\<close> is applied to the result of \<open>encodeURI\<close>, which holds ASCII
  only: there it maps \<open>A..Z\<close> to \<open>a..z\<close> in every locale that has no rule of its own
  for the ASCII letters (Turkish, Azeri and Lithuanian have), and that is modelled.
\<close>

definition toLocaleLowerCase :: "jstring \<Rightarrow> jstring" where
  "toLocaleLowerCase s = toLowerCase s"

text \<open>\<open>Heading.get_id()\<close>.\<close>

definition get_id :: "node \<Rightarrow> error + jstring" where
  "get_id this =
     bind (as_plain_text this)
       (\<lambda>plain. bind (encodeURI plain)
          (\<lambda>encoded. Inr (toLocaleLowerCase (replace_pct20 encoded))))"

text \<open>
  The strings the specification allows as identifiers: lower-case letters, digits,
  \<open>-\<close>, and \<open>%\<close> with two hexadecimal digits. The second predicate allows the
  punctuation that \<open>encodeURI\<close> leaves as it is, too.
\<close>

definition is_hex_lower :: "16 word \<Rightarrow> bool" where
  "is_hex_lower c = (is_digit c \<or> (97 \<le> c \<and> c \<le> 102))"

fun spec_id_ok :: "jstring \<Rightarrow> bool" where
  "spec_id_ok [] = True"
| "spec_id_ok (c # cs) =
     (if c = 37
      then (case cs of
              h1 # h2 # rest \<Rightarrow> is_hex_lower h1 \<and> is_hex_lower h2 \<and> spec_id_ok rest
            | _ \<Rightarrow> False)
      else (is_lower c \<or> is_digit c \<or> c = 45) \<and> spec_id_ok cs)"

fun id_ok :: "jstring \<Rightarrow> bool" where
  "id_ok [] = True"
| "id_ok (c # cs) =
     (if c = 37
      then (case cs of
              h1 # h2 # rest \<Rightarrow> is_hex_lower h1 \<and> is_hex_lower h2 \<and> id_ok rest
            | _ \<Rightarrow> False)
      else (is_lower c \<or> is_digit c \<or> uri_punctuation c) \<and> id_ok cs)"

text \<open>The strings that \<open>encodeURI\<close> returns, before they are lowered.\<close>

definition is_hex_upper :: "16 word \<Rightarrow> bool" where
  "is_hex_upper c = (is_digit c \<or> (65 \<le> c \<and> c \<le> 70))"

fun enc_ok :: "jstring \<Rightarrow> bool" where
  "enc_ok [] = True"
| "enc_ok (c # cs) =
     (if c = 37
      then (case cs of
              h1 # h2 # rest \<Rightarrow> is_hex_upper h1 \<and> is_hex_upper h2 \<and> enc_ok rest
            | _ \<Rightarrow> False)
      else uri_unescaped c \<and> enc_ok cs)"

section \<open>Serialization to JSON\<close>

text \<open>
  The value that \<open>JSON.stringify\<close> writes. \<open>toJSON()\<close> returns an object whose
  properties still hold the nodes; \<open>JSON.stringify\<close> serializes each of them in
  turn, through its \<open>toJSON\<close> when it has one and by its own properties otherwise,
  and leaves out a property whose value is \<open>undefined\<close>.
\<close>

datatype json =
    JNull
  | JBool bool
  | JNumber int
  | JString jstring
  | JArray "json list"
  | JObject "(string \<times> json) list"

definition obj :: "(string \<times> json option) list \<Rightarrow> json" where
  "obj properties =
     JObject (concat (map (\<lambda>(k, v). case v of None \<Rightarrow> [] | Some j \<Rightarrow> [(k, j)]) properties))"

definition jstr :: "jstring option \<Rightarrow> json option" where
  "jstr s = map_option JString s"

text \<open>
  \<open>json_of direct n\<close>: \<open>direct\<close> says that the source calls \<open>n.toJSON()\<close> itself, as
  \<open>Table\<close>, \<open>TableRow\<close>, \<open>TableEntry\<close> and \<open>MDDocument\<close> do on their children; the
  other classes store \<open>this.nodes\<close> in the object and leave the children to
  \<open>JSON.stringify\<close>. \<open>Comment\<close> defines no \<open>toJSON\<close> (nor does \<open>Element\<close>): the
  direct call is a TypeError, and \<open>JSON.stringify\<close> writes its one property,
  \<open>nodes\<close>.
\<close>

function json_of :: "bool \<Rightarrow> node \<Rightarrow> error + json" where
  "json_of direct (Text content) =
     Inr (if content = js ''  \<newline>'' then obj [(''type'', Some (JString (js ''linebreak'')))]
          else JString content)"
| "json_of direct (Emoji content skin_tone) =
     Inr (obj [(''type'', Some (JString (js ''emoji''))), (''content'', Some (JString content)),
               (''skin_tone'', map_option JNumber skin_tone)])"
| "json_of direct (InlineCode content) =
     Inr (obj [(''type'', Some (JString (js ''inline_code''))), (''content'', Some (JString content))])"
| "json_of direct (InlineLink content) =
     Inr (obj [(''type'', Some (JString (js ''inline_link''))), (''content'', Some (JString content))])"
| "json_of direct (Comment ns) =
     (if direct then Inl TypeError
      else bind (mapM (json_of False) ns) (\<lambda>vs. Inr (obj [(''nodes'', Some (JArray vs))])))"
| "json_of direct (Italic ns) =
     bind (mapM (json_of False) ns)
       (\<lambda>vs. Inr (obj [(''type'', Some (JString (js ''italic''))), (''nodes'', Some (JArray vs))]))"
| "json_of direct (Bold ns) =
     bind (mapM (json_of False) ns)
       (\<lambda>vs. Inr (obj [(''type'', Some (JString (js ''bold''))), (''nodes'', Some (JArray vs))]))"
| "json_of direct (Underline ns) =
     bind (mapM (json_of False) ns)
       (\<lambda>vs. Inr (obj [(''type'', Some (JString (js ''underline''))), (''nodes'', Some (JArray vs))]))"
| "json_of direct (Strikethrough ns) =
     bind (mapM (json_of False) ns)
       (\<lambda>vs. Inr (obj [(''type'', Some (JString (js ''strikethrough''))), (''nodes'', Some (JArray vs))]))"
| "json_of direct (Highlight ns) =
     bind (mapM (json_of False) ns)
       (\<lambda>vs. Inr (obj [(''type'', Some (JString (js ''highlight''))), (''nodes'', Some (JArray vs))]))"
| "json_of direct (Spoiler ns) =
     bind (mapM (json_of False) ns)
       (\<lambda>vs. Inr (obj [(''type'', Some (JString (js ''spoiler''))), (''nodes'', Some (JArray vs))]))"
| "json_of direct (Link ns r ref_name) =
     bind (mapM (json_of False) ns)
       (\<lambda>vs. Inr (obj [(''type'', Some (JString (js ''link''))), (''url'', jstr (url r)),
                        (''title'', Some (JArray vs)), (''tooltip'', jstr (tooltip r)),
                        (''ref_name'', Some (JString ref_name))]))"
| "json_of direct (Image ns r ref_name) =
     bind (mapM (json_of False) ns)
       (\<lambda>vs. Inr (obj [(''type'', Some (JString (js ''image''))), (''url'', jstr (url r)),
                        (''alt'', Some (JArray vs)), (''tooltip'', jstr (tooltip r)),
                        (''ref_name'', Some (JString ref_name))]))"
| "json_of direct (Heading ns level) =
     bind (mapM (json_of False) ns)
       (\<lambda>vs. Inr (obj [(''type'', Some (JString (js ''heading''))), (''level'', Some (JString level)),
                        (''nodes'', Some (JArray vs))]))"
| "json_of direct (Paragraph ns) =
     bind (mapM (json_of False) ns)
       (\<lambda>vs. Inr (obj [(''type'', Some (JString (js ''paragraph''))), (''nodes'', Some (JArray vs))]))"
| "json_of direct (BlockCode code language) =
     Inr (obj [(''type'', Some (JString (js ''block_code''))), (''code'', Some (JString code)),
               (''language'', jstr language)])"
| "json_of direct (BlockQuote ns) =
     bind (mapM (json_of False) ns)
       (\<lambda>vs. Inr (obj [(''type'', Some (JString (js ''quote''))), (''nodes'', Some (JArray vs))]))"
| "json_of direct HORIZONTAL_RULE = Inr (obj [(''type'', Some (JString (js ''horizontal_rule'')))])"
| "json_of direct (List ns ordered ordered_start) =
     bind (mapM (json_of False) ns)
       (\<lambda>vs. Inr (obj [(''type'', Some (JString (js ''list''))), (''entries'', Some (JArray vs)),
                        (''ordered'', Some (JBool ordered)),
                        (''ordered_start'', Some (JNumber ordered_start))]))"
| "json_of direct (ListEntry ns sublists checked) =
     bind (mapM (json_of False) ns)
       (\<lambda>vs. bind (mapM (json_of False) sublists)
          (\<lambda>subs. Inr (obj [(''type'', Some (JString (js ''list_entry''))),
                             (''nodes'', Some (JArray vs)), (''sublists'', Some (JArray subs)),
                             (''checked'', Some (case checked of None \<Rightarrow> JNull | Some c \<Rightarrow> JBool c))])))"
| "json_of direct (InlineHTML ns) =
     bind (mapM (json_of False) ns)
       (\<lambda>vs. Inr (obj [(''type'', Some (JString (js ''inline_html''))), (''content'', Some (JArray vs))]))"
| "json_of direct (InlineLatex ns raw display_mode) =
     Inr (obj [(''type'', Some (JString (js ''inline_latex''))), (''raw'', Some (JString raw)),
               (''display_mode'', Some (JBool display_mode))])"
| "json_of direct (Table rows als) =
     bind (mapM (json_of True) rows)
       (\<lambda>vs. Inr (obj [(''type'', Some (JString (js ''table''))), (''rows'', Some (JArray vs)),
                        (''alignments'', Some (JArray (map (\<lambda>a. JString (alignment_name a)) als)))]))"
| "json_of direct (TableRow ns) =
     bind (mapM (json_of True) ns)
       (\<lambda>vs. Inr (obj [(''type'', Some (JString (js ''table_row''))), (''columns'', Some (JArray vs))]))"
| "json_of direct (TableEntry ns) =
     bind (mapM (json_of True) ns)
       (\<lambda>vs. Inr (obj [(''type'', Some (JString (js ''table_entry''))), (''nodes'', Some (JArray vs))]))"
| "json_of direct (TableOfContents ns) =
     Inr (obj [(''type'', Some (JString (js ''table_of_contents'')))])"
  by pat_completeness auto
termination
  by (relation "measure (\<lambda>(direct, n). size n)") (auto dest: mem_size_le)

text \<open>
  \<open>MDDocument.toJSON()\<close> calls \<open>block.toJSON()\<close> on every block; \<open>references\<close> is
  the array of objects \<open>{name, ref}\<close>, a \<open>Reference\<close> being written by its two
  properties.
\<close>

definition MDDocument_toJSON :: "MDDocument \<Rightarrow> error + json" where
  "MDDocument_toJSON this =
     bind (mapM (json_of True) (blocks this))
       (\<lambda>vs. Inr (obj [(''blocks'', Some (JArray vs)),
                        (''references'',
                           Some (JArray (map (\<lambda>(name, r).
                                   obj [(''name'', Some (JString name)),
                                        (''ref'', Some (obj [(''url'', jstr (url r)),
                                                             (''tooltip'', jstr (tooltip r))]))])
                                 (references this))))]))"

section \<open>The table of contents\<close>

fun is_Heading :: "node \<Rightarrow> bool" where
  "is_Heading (Heading _ _) = True"
| "is_Heading _ = False"

fun level_of :: "node \<Rightarrow> jstring" where
  "level_of (Heading _ level) = level"
| "level_of _ = []"

text \<open>
  \<open>parseInt(heading.level[1])\<close>: the second code unit of the level as a decimal
  digit; \<open>NaN\<close> (\<open>None\<close>) when it is no digit or the level is shorter.
\<close>

definition parse_level :: "jstring \<Rightarrow> int option" where
  "parse_level level =
     (if length level < 2 then None
      else if is_digit (level ! 1) then Some (int (unat (level ! 1)) - 48)
      else None)"

text \<open>
  \<open>while (!current[level - 1]) level--;\<close> where every element of \<open>current\<close> is an
  object. The loop returns no value (\<open>None\<close>) when it does not end.
\<close>

partial_function (option) lower_level :: "'a list \<Rightarrow> int \<Rightarrow> int option" where
  "lower_level current level =
     (if 0 \<le> level - 1 \<and> nat (level - 1) < length current then Some level
      else lower_level current (level - 1))"

declare lower_level.simps [code]

text \<open>
  The list under construction is a tree of objects that \<open>as_list\<close> changes in
  place through references kept in \<open>current\<close>. A reference to an object of the tree
  is the path to it from the root list: an index into the \<open>nodes\<close> of a \<open>List\<close>,
  then an index into the \<open>sublists\<close> of that \<open>ListEntry\<close>, and so on. The tree only
  grows at the end of its arrays, so a path keeps pointing to the same object.
\<close>

type_synonym path = "nat list"

fun get_at :: "node \<Rightarrow> path \<Rightarrow> node option" where
  "get_at n [] = Some n"
| "get_at n (i # p) =
     (case n of
        List ns ord start \<Rightarrow> (if i < length ns then get_at (ns ! i) p else None)
      | ListEntry ns subs c \<Rightarrow> (if i < length subs then get_at (subs ! i) p else None)
      | _ \<Rightarrow> None)"

fun update_at :: "node \<Rightarrow> path \<Rightarrow> node \<Rightarrow> node" where
  "update_at n [] new = new"
| "update_at n (i # p) new =
     (case n of
        List ns ord start \<Rightarrow>
          (if i < length ns then List (ns[i := update_at (ns ! i) p new]) ord start else n)
      | ListEntry ns subs c \<Rightarrow>
          (if i < length subs then ListEntry ns (subs[i := update_at (subs ! i) p new]) c else n)
      | _ \<Rightarrow> n)"

text \<open>\<open>current[i] = x\<close> for \<open>i\<close> up to the length of the array.\<close>

definition set_index :: "'a list \<Rightarrow> nat \<Rightarrow> 'a \<Rightarrow> 'a list" where
  "set_index xs i x = (if i < length xs then xs[i := x] else xs @ [x])"

text \<open>
  \<open>new ListEntry([new Paragraph([new Link(`#${heading.get_id()}`, heading.nodes)])])\<close>,
  the entry that \<open>push_heading\<close> pushes.
\<close>

definition toc_entry :: "node \<Rightarrow> error + node" where
  "toc_entry heading =
     bind (get_id heading)
       (\<lambda>ident. bind (Link_new (js ''#'' @ ident)
                      (AArray (map INode (case nodes_of heading of None \<Rightarrow> [] | Some ns \<Rightarrow> ns)))
                      None None)
          (\<lambda>link. bind (Paragraph_new (AArray [INode link]))
             (\<lambda>paragraph. ListEntry_new (AArray [INode paragraph]) None None)))"

text \<open>
  The level of a heading in the list: \<open>parseInt(heading.level[1])\<close>, one less
  when \<open>h1\<close> is not allowed, then lowered by the loop unless it is 1. With \<open>NaN\<close>
  the condition of the loop stays true: it does not end.
\<close>

definition heading_level :: "bool \<Rightarrow> path list \<Rightarrow> node \<Rightarrow> error + int" where
  "heading_level allow_h1 current heading =
     (case parse_level (level_of heading) of
        None \<Rightarrow> Inl Diverges
      | Some parsed \<Rightarrow>
          (let level = (if \<not> allow_h1 then parsed - 1 else parsed)
           in case (if level \<noteq> 1 then lower_level current level else Some level) of
                None \<Rightarrow> Inl Diverges
              | Some level \<Rightarrow> Inr level))"

text \<open>\<open>push_heading(list, heading)\<close>, and the index of \<open>list.get_last()\<close> in \<open>list.nodes\<close>.\<close>

definition push_heading :: "node \<Rightarrow> node \<Rightarrow> error + node" where
  "push_heading list heading = bind (toc_entry heading) (\<lambda>entry. List_push list (INode entry))"

definition last_index :: "node \<Rightarrow> nat" where
  "last_index list = length (case nodes_of list of None \<Rightarrow> [] | Some ns \<Rightarrow> ns) - 1"

text \<open>
  The body of \<open>headings.forEach\<close>, on the state \<open>(list, current)\<close>: \<open>current ! 0\<close>
  is the path \<open>[]\<close> of the root list, the other elements are paths of entries. The
  first branch is \<open>level === 1\<close>; the second one cuts \<open>current\<close>, gives the parent a
  sublist when it has none, pushes into the last sublist and stores the path of
  the new entry at \<open>current[level]\<close>.
\<close>

definition as_list_top :: "node \<Rightarrow> node \<Rightarrow> error + node \<times> path list" where
  "as_list_top list heading =
     bind (push_heading list heading) (\<lambda>list. Inr (list, [[], [last_index list]]))"

definition as_list_sub :: "node \<Rightarrow> path list \<Rightarrow> int \<Rightarrow> node \<Rightarrow> error + node \<times> path list" where
  "as_list_sub list current level heading =
     (let current = (if int (length current) > level + 1 then take (nat level) current
                     else current);
          parent = current ! nat (level - 1)
      in case get_at list parent of
           Some (ListEntry ns subs c) \<Rightarrow>
             (let list = (if subs = [] then update_at list parent (ListEntry ns [List [] True 1] c)
                          else list);
                  subs = (if subs = [] then [List [] True 1] else subs);
                  parent_list = parent @ [length subs - 1]
              in bind (push_heading (last subs) heading)
                   (\<lambda>pushed. Inr (update_at list parent_list pushed,
                       set_index current (nat level) (parent_list @ [last_index pushed]))))
         | _ \<Rightarrow> Inl TypeError)"

definition as_list_step :: "bool \<Rightarrow> node \<times> path list \<Rightarrow> node \<Rightarrow> error + node \<times> path list" where
  "as_list_step allow_h1 state heading =
     (case state of (list, current) \<Rightarrow>
        bind (heading_level allow_h1 current heading)
          (\<lambda>level. if level = 1 then as_list_top list heading
                    else as_list_sub list current level heading))"

text \<open>\<open>xs.forEach\<close> with a body that changes a state and may throw.\<close>

fun foldM :: "('s \<Rightarrow> 'a \<Rightarrow> error + 's) \<Rightarrow> 's \<Rightarrow> 'a list \<Rightarrow> error + 's" where
  "foldM f s [] = Inr s"
| "foldM f s (x # xs) = (case f s x of Inl e \<Rightarrow> Inl e | Inr s' \<Rightarrow> foldM f s' xs)"

text \<open>\<open>TableOfContents.as_list(doc)\<close>.\<close>

definition toc_headings :: "MDDocument \<Rightarrow> bool \<times> node list" where
  "toc_headings doc =
     (let headings = filter is_Heading (blocks doc);
          allow_h1 = (length (filter (\<lambda>block. level_of block = js ''h1'') headings) > 1)
      in (allow_h1,
          if \<not> allow_h1 then filter (\<lambda>block. level_of block \<noteq> js ''h1'') headings
          else headings))"

definition as_list :: "MDDocument \<Rightarrow> error + node" where
  "as_list doc =
     bind (List_new [] True None)
       (\<lambda>list. case toc_headings doc of
                 (allow_h1, headings) \<Rightarrow>
                   bind (foldM (as_list_step allow_h1) (list, [[]]) headings)
                     (\<lambda>(list, current). Inr list))"


subsection \<open>The shape of the list\<close>













section \<open>The HTML AST (html.mjs)\<close>

text \<open>
  Modelled from the spec: html.mjs is not under src/. Sections 3.1 and 4.1 of the
  specification give the nodes (element, text with a mode, comment) and the
  operations on an element (create, set an attribute, add a token, set a style,
  append a child, a string becoming a text of mode NORMAL). An element is its tag
  name, its attributes in the order they were first set, and its children. The
  renderer tests a comment with \<open>instanceof html.Text\<close> before it excludes
  \<open>html.Comment\<close>, so a comment counts as a text there.
\<close>

datatype TextMode = NORMAL | RAW | CODE

datatype attr_value =
    VString jstring
  | VTokens "jstring list"
  | VStyle "(jstring \<times> jstring) list"
  | VEmpty
  | VUndefined

datatype html =
    HElement jstring "(jstring \<times> attr_value) list" "html list"
  | HText jstring TextMode
  | HComment jstring

text \<open>What a callback or a branch of \<open>render_inline\<close> returns: a string or an HTML node.\<close>

datatype ritem = RString jstring | RNode html

definition create_element :: "jstring \<Rightarrow> html" where
  "create_element name = HElement name [] []"

fun children :: "html \<Rightarrow> html list" where
  "children (HElement name attrs ch) = ch"
| "children _ = []"

fun set_children :: "html \<Rightarrow> html list \<Rightarrow> html" where
  "set_children (HElement name attrs ch) new = HElement name attrs new"
| "set_children h new = h"

fun is_html_Text :: "html \<Rightarrow> bool" where
  "is_html_Text (HText content mode) = True"
| "is_html_Text (HComment content) = True"
| "is_html_Text _ = False"

fun is_html_Comment :: "html \<Rightarrow> bool" where
  "is_html_Comment (HComment content) = True"
| "is_html_Comment _ = False"

fun is_html_Element :: "html \<Rightarrow> bool" where
  "is_html_Element (HElement name attrs ch) = True"
| "is_html_Element _ = False"

text \<open>The tokens of a space-delimited attribute value.\<close>

fun tokens_acc :: "jstring \<Rightarrow> jstring \<Rightarrow> jstring list" where
  "tokens_acc piece [] = (if piece = [] then [] else [piece])"
| "tokens_acc piece (c # cs) =
     (if c = 32 then (if piece = [] then [] else [piece]) @ tokens_acc [] cs
      else tokens_acc (piece @ [c]) cs)"

definition tokens :: "jstring \<Rightarrow> jstring list" where
  "tokens s = tokens_acc [] s"

text \<open>
  \<open>element.attr(name, value)\<close> and \<open>with_attr\<close>: the value of \<open>class\<close> is a token
  list, and setting it again merges the tokens without duplicates; any other
  attribute keeps the last value set.
\<close>

definition merge_value :: "jstring \<Rightarrow> attr_value option \<Rightarrow> attr_value \<Rightarrow> attr_value" where
  "merge_value name old new =
     (if name = js ''class''
      then (let new_tokens = (case new of VString s \<Rightarrow> Some (tokens s)
                                         | VTokens ts \<Rightarrow> Some ts
                                         | _ \<Rightarrow> None)
            in case new_tokens of
                 None \<Rightarrow> new
               | Some ts \<Rightarrow>
                   (case old of
                      Some (VTokens os) \<Rightarrow> VTokens (os @ filter (\<lambda>t. t \<notin> set os) (remdups ts))
                    | _ \<Rightarrow> VTokens ts))
      else new)"

fun set_attribute :: "(jstring \<times> attr_value) list \<Rightarrow> jstring \<Rightarrow> attr_value
    \<Rightarrow> (jstring \<times> attr_value) list" where
  "set_attribute [] name v = [(name, merge_value name None v)]"
| "set_attribute ((k, old) # rest) name v =
     (if k = name then (k, merge_value name (Some old) v) # rest
      else (k, old) # set_attribute rest name v)"

fun attr :: "html \<Rightarrow> jstring \<Rightarrow> attr_value \<Rightarrow> html" where
  "attr (HElement name attrs ch) k v = HElement name (set_attribute attrs k v) ch"
| "attr h k v = h"

fun attribute :: "html \<Rightarrow> jstring \<Rightarrow> attr_value option" where
  "attribute (HElement name attrs ch) k = map_of attrs k"
| "attribute h k = None"

text \<open>\<open>element.attr("class").add(token)\<close>.\<close>

definition class_add :: "html \<Rightarrow> jstring \<Rightarrow> html" where
  "class_add element token = attr element (js ''class'') (VTokens [token])"

text \<open>\<open>element.style(key, value)\<close>.\<close>

definition style :: "html \<Rightarrow> jstring \<Rightarrow> jstring \<Rightarrow> html" where
  "style element key v =
     attr element (js ''style'')
       (VStyle ((case attribute element (js ''style'') of
                   Some (VStyle entries) \<Rightarrow> filter (\<lambda>(k, _). k \<noteq> key) entries
                 | _ \<Rightarrow> []) @ [(key, v)]))"

fun item_html :: "ritem \<Rightarrow> html" where
  "item_html (RString s) = HText s NORMAL"
| "item_html (RNode h) = h"

fun append_child :: "html \<Rightarrow> ritem \<Rightarrow> html" where
  "append_child (HElement name attrs ch) item = HElement name attrs (ch @ [item_html item])"
| "append_child h item = h"

text \<open>\<open>fill_element(element, nodes)\<close> of renderer.mjs, and every \<open>forEach\<close> that appends.\<close>

definition fill_element :: "html \<Rightarrow> ritem list \<Rightarrow> html" where
  "fill_element element nodes = foldl append_child element nodes"

text \<open>An attribute value that may be \<open>undefined\<close>.\<close>

definition attr_string :: "jstring option \<Rightarrow> attr_value" where
  "attr_string v = (case v of None \<Rightarrow> VUndefined | Some s \<Rightarrow> VString s)"

text \<open>
  What the renderer calls of html.mjs beyond these, and what the engine words: the
  parsers, the sanitizer (which is handed \<open>sanitize_raw\<close> of renderer.mjs), the
  serializers, \<open>purge_empty_children\<close>, the properties \<open>nodeName\<close> and
  \<open>textContent\<close>, and the message of a runtime error. They are parameters of the
  model. \<open>parse\<close> gets the value that \<open>latex.render\<close> returned and the template
  element, and returns the template.
\<close>

datatype latex_value = LString jstring | LElement html

record html_module =
  parse_nodes :: "jstring \<Rightarrow> html list"
  parse :: "latex_value \<Rightarrow> html \<Rightarrow> html"
  sanitize_elements :: "html list \<Rightarrow> jstring list \<Rightarrow> (html \<Rightarrow> error + html) \<Rightarrow> error + html list"
  node_html :: "html \<Rightarrow> jstring"
  inner_html :: "html \<Rightarrow> jstring"
  purge_empty_children :: "html \<Rightarrow> html"
  nodeName :: "html \<Rightarrow> jstring option"
  textContent :: "html \<Rightarrow> jstring"
  engine_message :: "error \<Rightarrow> jstring"

text \<open>\<open>error.message\<close> of a caught exception.\<close>

definition message :: "html_module \<Rightarrow> error \<Rightarrow> jstring" where
  "message lib e = (case e of Error m \<Rightarrow> m | _ \<Rightarrow> engine_message lib e)"

subsection \<open>as_html of markdown.mjs\<close>

text \<open>
  \<open>node.as_html\<close>: \<open>None\<close> for a class that has no such method. \<open>Comment.as_html\<close>
  serializes the comment, which can throw.
\<close>

definition as_html :: "node \<Rightarrow> (error + html) option" where
  "as_html node =
     (case node of
        InlineCode content \<Rightarrow>
          Some (Inr (append_child (create_element (js ''code'')) (RNode (HText content CODE))))
      | InlineLink content \<Rightarrow>
          Some (Inr (append_child (attr (create_element (js ''a'')) (js ''href'') (VString content))
                       (RString content)))
      | Comment ns \<Rightarrow> Some (bind (toString (Comment ns)) (\<lambda>s. Inr (HComment s)))
      | HORIZONTAL_RULE \<Rightarrow> Some (Inr (create_element (js ''hr'')))
      | _ \<Rightarrow> None)"

section \<open>The renderer (renderer.mjs)\<close>

subsection \<open>Options\<close>

text \<open>
  The options after \<open>merge_default_options\<close> (\<open>merge_objects\<close> of utils.mjs is not
  under src/: every leaf is the value the caller set, or the default). A callback
  that can throw returns \<open>error + _\<close>. \<open>block_code.highlighter\<close> and \<open>table.process\<close>
  change the element they are given: the model has them return it. \<open>emoji\<close> and
  \<open>code.process\<close> return a node, a string or an array, which \<open>flatMap\<close> splices;
  \<open>null\<close> and \<open>undefined\<close> are filtered out, the empty list here.
  \<open>inline_html\<close> may be a boolean; \<open>parent\<close> is \<open>null\<close> or \<open>undefined\<close>, or an
  \<open>html.Element\<close>, or another object (a DOM node), or a primitive value, which is
  truthy or not. \<open>paragraph_as_text\<close> is the scratch flag, \<open>undefined\<close> unless the
  caller sets it.
\<close>

datatype inline_html_option =
    InlineHtmlBoolean bool
  | InlineHtmlObject bool "jstring list"

datatype parent_value =
    ParentAbsent
  | ParentElement html
  | ParentObject
  | ParentPrimitive bool

record options =
  block_code_class_name :: jstring
  block_code_highlighter :: "(jstring \<Rightarrow> jstring \<Rightarrow> html \<Rightarrow> error + html) option"
  checkbox_enable :: bool
  checkbox_disabled_property :: bool
  code_process :: "node \<Rightarrow> error + ritem list"
  emoji :: "(node \<Rightarrow> error + ritem list) option"
  highlight_enable :: bool
  inline_html :: inline_html_option
  image_class_name :: jstring
  latex_render :: "(node \<Rightarrow> error + latex_value) option"
  latex_katex :: "(jstring \<Rightarrow> bool \<Rightarrow> error + jstring) option"
  latex_error_classes :: "jstring list"
  strikethrough_class_name :: jstring
  table_process :: "html \<Rightarrow> error + html"
  underline_enable :: bool
  underline_class_name :: jstring
  spoiler_enable :: bool
  spoiler_class_name :: jstring
  spoiler_image_class_name :: jstring
  spoiler_hidden_class_name :: jstring
  parent :: parent_value
  paragraph_as_text :: bool

definition default_disallowed_tags :: "jstring list" where
  "default_disallowed_tags =
     [js ''iframe'', js ''noembed'', js ''noframes'', js ''plaintext'', js ''script'',
      js ''style'', js ''svg'', js ''textarea'', js ''title'', js ''xmp'']"


text \<open>\<open>options.inline_html.enable\<close> and \<open>.disallowed_tags\<close>, after \<open>render_to_html\<close> has replaced a boolean.\<close>

definition inline_html_enable :: "options \<Rightarrow> bool" where
  "inline_html_enable opts =
     (case inline_html opts of InlineHtmlBoolean b \<Rightarrow> b | InlineHtmlObject b tags \<Rightarrow> b)"

definition inline_html_disallowed_tags :: "options \<Rightarrow> jstring list" where
  "inline_html_disallowed_tags opts =
     (case inline_html opts of
        InlineHtmlBoolean b \<Rightarrow> default_disallowed_tags
      | InlineHtmlObject b tags \<Rightarrow> tags)"

text \<open>
  \<open>options.latex.render\<close> after \<open>render_to_html\<close>: the callback, or the one built
  from \<open>latex.katex\<close> when only that is given.
\<close>

fun latex_raw :: "node \<Rightarrow> jstring" where
  "latex_raw (InlineLatex ns raw dm) = raw"
| "latex_raw _ = []"

fun display_mode :: "node \<Rightarrow> bool" where
  "display_mode (InlineLatex ns raw dm) = dm"
| "display_mode _ = False"

definition latex_renderer :: "options \<Rightarrow> (node \<Rightarrow> error + latex_value) option" where
  "latex_renderer opts =
     (case latex_render opts of
        Some f \<Rightarrow> Some f
      | None \<Rightarrow>
          (case latex_katex opts of
             Some renderToString \<Rightarrow>
               Some (\<lambda>node. bind (renderToString (latex_raw node) (display_mode node))
                              (\<lambda>s. Inr (LString s)))
           | None \<Rightarrow> None))"

subsection \<open>sanitize_raw\<close>

text \<open>
  \<open>ATTRIBUTES_RULES[node.tag.name]\<close> is a property lookup on a plain object: for a
  tag named like a property of \<open>Object.prototype\<close> it finds a value that is truthy
  and has no \<open>includes\<close>, so the call throws a TypeError; it is reached for an
  attribute that the rule \<open>*\<close> does not allow.
\<close>

definition rules_all :: "jstring list" where
  "rules_all = [js ''align'', js ''aria-hidden'', js ''class'', js ''id'', js ''lang'',
                js ''style'', js ''title'']"

definition object_prototype_names :: "jstring list" where
  "object_prototype_names =
     [js ''constructor'', js ''__defineGetter__'', js ''__defineSetter__'',
      js ''hasOwnProperty'', js ''__lookupGetter__'', js ''__lookupSetter__'',
      js ''isPrototypeOf'', js ''propertyIsEnumerable'', js ''toString'', js ''valueOf'',
      js ''__proto__'', js ''toLocaleString'']"

definition rules_tag :: "jstring \<Rightarrow> (error + jstring list) option" where
  "rules_tag name =
     (if name = js ''img'' then Some (Inr [js ''width'', js ''height'', js ''src'', js ''alt''])
      else if name = js ''a'' then Some (Inr [js ''href''])
      else if name \<in> set object_prototype_names then Some (Inl TypeError)
      else None)"

fun filterM :: "('a \<Rightarrow> error + bool) \<Rightarrow> 'a list \<Rightarrow> error + 'a list" where
  "filterM p [] = Inr []"
| "filterM p (x # xs) =
     (case p x of
        Inl e \<Rightarrow> Inl e
      | Inr b \<Rightarrow> (case filterM p xs of Inl e \<Rightarrow> Inl e
                  | Inr ys \<Rightarrow> Inr (if b then x # ys else ys)))"

definition sanitize_raw :: "html \<Rightarrow> error + html" where
  "sanitize_raw node =
     (case node of
        HElement name attrs ch \<Rightarrow>
          bind (filterM (\<lambda>(k, v). if k \<in> set rules_all then Inr True
                                  else (case rules_tag name of
                                          None \<Rightarrow> Inr False
                                        | Some (Inl e) \<Rightarrow> Inl e
                                        | Some (Inr allowed) \<Rightarrow> Inr (k \<in> set allowed)))
                  attrs)
            (\<lambda>kept. Inr (HElement name kept ch))
      | _ \<Rightarrow> Inr node)"

subsection \<open>Inline nodes\<close>

text \<open>
  \<open>markdown.references.find(ref => ref.name === node.ref_name)\<close>, and the reference
  a link or an image ends with: its own, or the one found when it has a
  \<open>ref_name\<close>, or none.
\<close>

definition find_reference :: "MDDocument \<Rightarrow> jstring \<Rightarrow> reference option" where
  "find_reference markdown name =
     map_option snd (find (\<lambda>(n, r). n = name) (references markdown))"

definition resolve_ref :: "MDDocument \<Rightarrow> reference \<Rightarrow> jstring \<Rightarrow> reference option" where
  "resolve_ref markdown r ref_name =
     (if ref_name \<noteq> [] then find_reference markdown ref_name else Some r)"

text \<open>
  \<open>element.className = options.strikethrough.class_name\<close>. Modelled from the spec
  (section 4.5: \<open>strikethrough.class_name\<close> is the class of the span): html.mjs, which
  would say what the assignment does, is not under src/.
\<close>

definition set_className :: "html \<Rightarrow> jstring \<Rightarrow> html" where
  "set_className element name = attr element (js ''class'') (VString name)"

text \<open>
  \<open>render_latex(node, options)\<close>; \<open>should_escape\<close> is \<open>options.should_escape\<close>. The
  \<open>try\<close> catches what \<open>latex.render\<close> throws; a call that does not return is not
  caught.
\<close>

definition latex_template :: "html_module \<Rightarrow> latex_value \<Rightarrow> ritem" where
  "latex_template lib latex =
     (let template = parse lib latex (create_element (js ''div''))
      in if length (children template) = 1 then RNode (children template ! 0)
         else RNode template)"

definition render_latex :: "html_module \<Rightarrow> options \<Rightarrow> bool \<Rightarrow> node \<Rightarrow> error + ritem" where
  "render_latex lib opts should_escape node =
     (case latex_renderer opts of
        None \<Rightarrow> bind (toString node) (\<lambda>s. Inr (RNode (HText s NORMAL)))
      | Some render \<Rightarrow>
          (case render node of
             Inl Diverges \<Rightarrow> Inl Diverges
           | Inl error \<Rightarrow>
               Inr (RNode (append_child
                             (attr (create_element (if display_mode node then js ''div''
                                                    else js ''span''))
                                (js ''class'') (VTokens (latex_error_classes opts)))
                             (RString (message lib error))))
           | Inr (LString s) \<Rightarrow>
               (if \<not> should_escape then Inr (RString s)
                else Inr (latex_template lib (LString s)))
           | Inr (LElement h) \<Rightarrow>
               (if is_html_Element h then Inr (RNode h)
                else Inr (latex_template lib (LElement h)))))"

text \<open>The element of an image or a link with the attributes of its reference.\<close>

definition with_reference :: "html \<Rightarrow> jstring \<Rightarrow> reference option \<Rightarrow> html" where
  "with_reference element name r =
     (case r of
        None \<Rightarrow> element
      | Some rf \<Rightarrow>
          (let element = attr element name (attr_string (url rf))
           in if has_tooltip rf then attr element (js ''title'') (attr_string (tooltip rf))
              else element))"

text \<open>
  The span of a spoiler that is not enabled: the opening \<open>||\<close> goes into the first
  child when that is a text, else it is a child of its own.
\<close>

definition spoiler_plain :: "ritem list \<Rightarrow> html" where
  "spoiler_plain content =
     (let container = create_element (js ''span'')
      in append_child
           (case content of
              RNode (HText c mode) # rest \<Rightarrow>
                fill_element container (RNode (HText (js ''||'' @ c) mode) # rest)
            | RNode (HComment c) # rest \<Rightarrow>
                fill_element container (RNode (HComment (js ''||'' @ c)) # rest)
            | _ \<Rightarrow> fill_element (append_child container (RString (js ''||''))) content)
           (RString (js ''||'')))"

text \<open>
  \<open>render_inline(markdown, nodes, options, allow_linebreak)\<close> with its \<open>flatMap\<close>
  body \<open>render_node\<close>, and \<open>render_simple\<close>, which sets \<open>options.should_escape\<close> for
  the children and restores it. \<open>esc\<close> is \<open>options.should_escape\<close>.
\<close>

function (sequential)
  render_inline :: "html_module \<Rightarrow> options \<Rightarrow> MDDocument \<Rightarrow> bool \<Rightarrow> bool \<Rightarrow> node list
      \<Rightarrow> error + ritem list"
  and render_node :: "html_module \<Rightarrow> options \<Rightarrow> MDDocument \<Rightarrow> bool \<Rightarrow> bool \<Rightarrow> node
      \<Rightarrow> error + ritem list"
  and render_simple :: "html_module \<Rightarrow> options \<Rightarrow> MDDocument \<Rightarrow> node list \<Rightarrow> jstring \<Rightarrow> bool
      \<Rightarrow> error + html"
where
  "render_inline lib opts markdown esc allow_linebreak [] = Inr []"
| "render_inline lib opts markdown esc allow_linebreak (node # nodes) =
     bind (render_node lib opts markdown esc allow_linebreak node)
       (\<lambda>first. bind (render_inline lib opts markdown esc allow_linebreak nodes)
          (\<lambda>rest. Inr (first @ rest)))"
| "render_simple lib opts markdown nodes el_name allow_linebreak =
     bind (render_inline lib opts markdown True allow_linebreak nodes)
       (\<lambda>items. Inr (fill_element (create_element el_name) items))"
| "render_node lib opts markdown esc allow_linebreak (Emoji content skin_tone) =
     (case emoji opts of
        None \<Rightarrow> bind (toString (Emoji content skin_tone)) (\<lambda>s. Inr [RString s])
      | Some callback \<Rightarrow> callback (Emoji content skin_tone))"
| "render_node lib opts markdown esc allow_linebreak (Text content) =
     (if content = js ''  \<newline>''
      then (if \<not> allow_linebreak then Inr [] else Inr [RNode (create_element (js ''br''))])
      else if \<not> esc then Inr [RString content]
      else if inline_html_enable opts
      then bind (sanitize_elements lib (parse_nodes lib content)
                   (inline_html_disallowed_tags opts) sanitize_raw)
             (\<lambda>ns. Inr (map RNode ns))
      else Inr [RNode (HText content NORMAL)])"
| "render_node lib opts markdown esc allow_linebreak (InlineCode content) =
     code_process opts (InlineCode content)"
| "render_node lib opts markdown esc allow_linebreak (Image ns r ref_name) =
     bind (mapM toString ns)
       (\<lambda>ss. let element = attr (create_element (js ''img'')) (js ''alt'') (VString (concat ss));
                 element = with_reference element (js ''src'') (resolve_ref markdown r ref_name)
             in Inr [RNode (attr element (js ''class'') (VString (image_class_name opts)))])"
| "render_node lib opts markdown esc allow_linebreak (Link ns r ref_name) =
     (let element = with_reference (create_element (js ''a'')) (js ''href'')
                      (resolve_ref markdown r ref_name)
      in bind (render_inline lib opts markdown esc False ns)
           (\<lambda>items. Inr [RNode (fill_element element items)]))"
| "render_node lib opts markdown esc allow_linebreak (Bold ns) =
     bind (render_simple lib opts markdown ns (js ''b'') allow_linebreak)
       (\<lambda>element. Inr [RNode element])"
| "render_node lib opts markdown esc allow_linebreak (Underline ns) =
     (if \<not> underline_enable opts
      then bind (render_simple lib opts markdown ns (js ''b'') allow_linebreak)
             (\<lambda>element. Inr [RNode element])
      else bind (render_simple lib opts markdown ns (js ''span'') allow_linebreak)
             (\<lambda>element. Inr [RNode (attr element (js ''class'')
                                       (VString (underline_class_name opts)))]))"
| "render_node lib opts markdown esc allow_linebreak (Italic ns) =
     bind (render_simple lib opts markdown ns (js ''em'') allow_linebreak)
       (\<lambda>element. Inr [RNode element])"
| "render_node lib opts markdown esc allow_linebreak (Strikethrough ns) =
     bind (render_simple lib opts markdown ns (js ''span'') allow_linebreak)
       (\<lambda>element. Inr [RNode (set_className element (strikethrough_class_name opts))])"
| "render_node lib opts markdown esc allow_linebreak (Highlight ns) =
     (if \<not> highlight_enable opts
      then bind (toString (Highlight ns)) (\<lambda>s. Inr [RNode (HText s NORMAL)])
      else bind (render_simple lib opts markdown ns (js ''mark'') allow_linebreak)
             (\<lambda>element. Inr [RNode element]))"
| "render_node lib opts markdown esc allow_linebreak (Spoiler ns) =
     bind (render_inline lib opts markdown esc False ns)
       (\<lambda>content.
          if \<not> spoiler_enable opts then Inr [RNode (spoiler_plain content)]
          else if (case ns of [Image ins r ref_name] \<Rightarrow> True | _ \<Rightarrow> False)
          then (case content of
                  RNode img # rest \<Rightarrow>
                    Inr [RNode (append_child
                                  (attr (create_element (js ''div'')) (js ''class'')
                                     (VString (spoiler_class_name opts)))
                                  (RNode (append_child
                                            (attr (create_element (js ''div'')) (js ''class'')
                                               (VString (spoiler_image_class_name opts @ js '' ''
                                                         @ spoiler_hidden_class_name opts)))
                                            (RNode (class_add img
                                                      (spoiler_image_class_name opts))))))]
                | _ \<Rightarrow> Inl TypeError)
          else Inr [RNode (append_child
                             (attr (create_element (js ''span'')) (js ''class'')
                                (VString (spoiler_class_name opts @ js '' ''
                                          @ spoiler_hidden_class_name opts)))
                             (RNode (fill_element (create_element (js ''span'')) content)))])"
| "render_node lib opts markdown esc allow_linebreak (InlineLatex ns raw dm) =
     bind (render_latex lib opts esc (InlineLatex ns raw dm))
       (\<lambda>element.
          if \<not> esc
          then (case element of
                  RNode h \<Rightarrow> (if nodeName lib h = Some (js ''#text'')
                              then Inr [RString (textContent lib h)] else Inr [element])
                | RString s \<Rightarrow> Inr [element])
          else Inr [element])"
| "render_node lib opts markdown esc allow_linebreak node =
     (case as_html node of
        Some result \<Rightarrow> bind result (\<lambda>h. Inr [RNode h])
      | None \<Rightarrow> Inr [])"
  by pat_completeness auto
termination
  by (relation "measure (\<lambda>x. case x of
         Inl (lib, opts, markdown, esc, al, nodes) \<Rightarrow> 2 * size_list size nodes
       | Inr (Inl (lib, opts, markdown, esc, al, node)) \<Rightarrow> 2 * size node
       | Inr (Inr (lib, opts, markdown, nodes, el_name, al)) \<Rightarrow> 2 * size_list size nodes + 1)")
    auto

subsection \<open>Blocks\<close>

text \<open>\<open>is_block()\<close>: \<open>true\<close> in \<open>BlockElement\<close> and for \<open>HORIZONTAL_RULE\<close>, the display mode for \<open>InlineLatex\<close>.\<close>

fun is_block :: "node \<Rightarrow> bool" where
  "is_block (Heading ns level) = True"
| "is_block (Paragraph ns) = True"
| "is_block (BlockCode code language) = True"
| "is_block (BlockQuote ns) = True"
| "is_block HORIZONTAL_RULE = True"
| "is_block (List ns ord start) = True"
| "is_block (InlineHTML ns) = True"
| "is_block (InlineLatex ns raw dm) = dm"
| "is_block (Table rows als) = True"
| "is_block (TableRow ns) = True"
| "is_block (TableEntry ns) = True"
| "is_block (TableOfContents ns) = True"
| "is_block _ = False"

fun is_TableRow :: "node \<Rightarrow> bool" where
  "is_TableRow (TableRow ns) = True"
| "is_TableRow _ = False"

text \<open>\<open>Table.get_alignment(column)\<close> and \<open>TableAlignment.style_table_data\<close>.\<close>

definition get_alignment :: "TableAlignment list \<Rightarrow> nat \<Rightarrow> TableAlignment" where
  "get_alignment als column = (if column < length als then als ! column else NONE)"

fun style_table_data :: "TableAlignment \<Rightarrow> html \<Rightarrow> html" where
  "style_table_data NONE element = element"
| "style_table_data a element = style element (js ''text-align'') (alignment_name a)"

text \<open>
  \<open>render_table_row(markdown, row, head, options)\<close>; \<open>als\<close> are the alignments of
  \<open>row.table\<close>, the table that holds the row. A row that is \<open>undefined\<close> or has no
  \<open>nodes\<close>, a value with entries that is no \<open>TableRow\<close> (it has no \<open>table\<close>), and an
  entry without \<open>nodes\<close> are TypeErrors.
\<close>

definition render_table_row :: "html_module \<Rightarrow> options \<Rightarrow> MDDocument \<Rightarrow> bool
    \<Rightarrow> TableAlignment list \<Rightarrow> node option \<Rightarrow> bool \<Rightarrow> error + html" where
  "render_table_row lib opts markdown esc als row head =
     (case row of
        None \<Rightarrow> Inl TypeError
      | Some r \<Rightarrow>
          (case nodes_of r of
             None \<Rightarrow> Inl TypeError
           | Some entries \<Rightarrow>
               if entries \<noteq> [] \<and> \<not> is_TableRow r then Inl TypeError
               else bind (mapM (\<lambda>(entry, index).
                                  let td = style_table_data (get_alignment als index)
                                             (create_element (if head then js ''th'' else js ''td''))
                                  in case nodes_of entry of
                                       None \<Rightarrow> Inl TypeError
                                     | Some ns \<Rightarrow>
                                         bind (render_inline lib opts markdown esc False ns)
                                           (\<lambda>items. Inr (fill_element td items)))
                           (zip entries [0..<length entries]))
                      (\<lambda>tds. Inr (fill_element (create_element (js ''tr'')) (map RNode tds)))))"

text \<open>The \<open>pre\<close> element of a code block, and the checkbox of a task entry.\<close>

definition code_block :: "options \<Rightarrow> jstring \<Rightarrow> jstring option \<Rightarrow> error + html" where
  "code_block opts code language =
     (let element = create_element (js ''code'')
      in bind (case language of
                 Some l \<Rightarrow>
                   (if l \<noteq> [] then
                      (case block_code_highlighter opts of
                         Some highlighter \<Rightarrow>
                           bind (highlighter code l (create_element (js ''div'')))
                             (\<lambda>filled. Inr (set_children element (children filled)))
                       | None \<Rightarrow> Inr (append_child element (RNode (HText code CODE))))
                    else Inr (append_child element (RNode (HText code CODE))))
               | None \<Rightarrow> Inr (append_child element (RNode (HText code CODE))))
           (\<lambda>element.
              let language_class =
                    (case language of
                       Some l \<Rightarrow> (if l \<noteq> [] then VString (js ''language-'' @ l) else VUndefined)
                     | None \<Rightarrow> VUndefined)
              in Inr (append_child (attr (create_element (js ''pre'')) (js ''class'') language_class)
                        (RNode (attr element (js ''class'') language_class)))))"

definition checkbox :: "options \<Rightarrow> bool \<Rightarrow> html" where
  "checkbox opts checked =
     (let box = attr (attr (create_element (js ''input'')) (js ''type'') (VString (js ''checkbox'')))
                  (js ''style'')
                  (VStyle [(js ''list-style-type'', js ''none''),
                           (js ''margin'', js ''0 0.2em 0 -1.3em'')]);
          box = (if checked then attr box (js ''checked'') VEmpty else box)
      in if checkbox_disabled_property opts then attr box (js ''disabled'') VEmpty else box)"

text \<open>
  The measure of the recursion below: the \<open>TableOfContents\<close> blocks that
  \<open>render_blocks\<close> reaches, through quotes, lists, entries and sublists. The list
  that \<open>as_list\<close> builds holds paragraphs of links, and none of them.
\<close>

fun toc_weight :: "node \<Rightarrow> nat" where
  "toc_weight (TableOfContents ns) = 1"
| "toc_weight (BlockQuote ns) = sum_list (map toc_weight ns)"
| "toc_weight (List ns ord start) = sum_list (map toc_weight ns)"
| "toc_weight (ListEntry ns subs c) = sum_list (map toc_weight ns) + sum_list (map toc_weight subs)"
| "toc_weight _ = 0"

lemma toc_weight_entry: "toc_entry heading = Inr entry \<Longrightarrow> toc_weight entry = 0"
  by (auto simp add: toc_entry_def bind_def Link_new_def Link_fields_def Paragraph_new_def
      ListEntry_new_def Element_new_def purge_linebreaks_def item_node_def
      split: sum.splits if_splits)

lemma toc_weight_update:
  "toc_weight n = 0 \<Longrightarrow> toc_weight new = 0 \<Longrightarrow> toc_weight (update_at n p new) = 0"
proof (induction p arbitrary: n)
  case Nil
  then show ?case by simp
next
  case (Cons i p)
  show ?case
  proof (cases n)
    case (List ns ord start)
    with Cons show ?thesis
      by (auto dest!: set_update_subset_insert [THEN subsetD])
  next
    case (ListEntry ns subs c)
    with Cons show ?thesis
      by (auto dest!: set_update_subset_insert [THEN subsetD])
  qed (use Cons.prems in auto)
qed

lemma toc_weight_nth:
  "\<forall>n \<in> set ns. toc_weight n = 0 \<Longrightarrow> i < length ns \<Longrightarrow> toc_weight (ns ! i) = 0"
  by simp

lemma toc_weight_get:
  "toc_weight n = 0 \<Longrightarrow> get_at n p = Some m \<Longrightarrow> toc_weight m = 0"
proof (induction p arbitrary: n)
  case Nil
  then show ?case by simp
next
  case (Cons i p)
  show ?case
  proof (cases n)
    case (List ns ord start)
    with Cons.prems have "i < length ns" and "get_at (ns ! i) p = Some m"
      and "toc_weight (ns ! i) = 0"
      by (auto split: if_splits)
    then show ?thesis by (intro Cons.IH)
  next
    case (ListEntry ns subs c)
    with Cons.prems have "i < length subs" and "get_at (subs ! i) p = Some m"
      and "toc_weight (subs ! i) = 0"
      by (auto split: if_splits)
    then show ?thesis by (intro Cons.IH)
  qed (use Cons.prems in auto)
qed

lemma is_ListEntry_toc_entry: "toc_entry heading = Inr entry \<Longrightarrow> is_ListEntry entry"
  by (auto simp add: toc_entry_def bind_def ListEntry_new_def Element_new_def
      split: sum.splits)

lemma toc_weight_push:
  "toc_weight this = 0 \<Longrightarrow> push_heading this heading = Inr pushed \<Longrightarrow> toc_weight pushed = 0"
proof -
  assume w0: "toc_weight this = 0" and "push_heading this heading = Inr pushed"
  then obtain entry where entry: "toc_entry heading = Inr entry"
    and pushed: "List_push this (INode entry) = Inr pushed"
    by (auto simp add: push_heading_def bind_def split: sum.splits)
  from entry have "toc_weight entry = 0" and "is_ListEntry entry"
    by (rule toc_weight_entry, rule is_ListEntry_toc_entry)
  with w0 pushed show ?thesis
    by (cases entry; cases this) (auto simp add: List_push_def item_node_def)
qed

lemma toc_weight_sub:
  assumes "as_list_sub list current level heading = Inr (list', current')"
    and "toc_weight list = 0"
  shows "toc_weight list' = 0"
proof -
  define cur where "cur = (if int (length current) > level + 1 then take (nat level) current
                           else current)"
  define parent where "parent = cur ! nat (level - 1)"
  from assms(1) obtain ns subs c where
    got: "get_at list parent = Some (ListEntry ns subs c)"
    by (auto simp add: as_list_sub_def Let_def cur_def parent_def
        split: option.splits node.splits)
  define list1 where "list1 = (if subs = []
      then update_at list parent (ListEntry ns [List [] True 1] c) else list)"
  define subs1 where "subs1 = (if subs = [] then [List [] True 1] else subs)"
  from assms(1) got obtain pushed where
    pushed: "push_heading (last subs1) heading = Inr pushed"
    and list': "list' = update_at list1 (parent @ [length subs1 - 1]) pushed"
    by (auto simp add: as_list_sub_def Let_def cur_def parent_def list1_def subs1_def
        bind_def split: sum.splits)
  from toc_weight_get [OF assms(2) got] have entry: "toc_weight (ListEntry ns subs c) = 0" .
  then have "toc_weight list1 = 0"
    using assms(2) by (auto simp add: list1_def intro!: toc_weight_update)
  moreover have "toc_weight (last subs1) = 0"
    using entry by (auto simp add: subs1_def)
  then have "toc_weight pushed = 0"
    using pushed by (rule toc_weight_push)
  ultimately show ?thesis
    unfolding list' by (rule toc_weight_update)
qed

lemma toc_weight_step:
  assumes "as_list_step allow_h1 (list, current) heading = Inr (list', current')"
    and "toc_weight list = 0"
  shows "toc_weight list' = 0"
  using assms
  by (auto simp add: as_list_step_def as_list_top_def bind_def
      split: sum.splits if_splits dest: toc_weight_push toc_weight_sub)

lemma toc_weight_foldM:
  "foldM (as_list_step allow_h1) (list, current) headings = Inr (list', current')
   \<Longrightarrow> toc_weight list = 0 \<Longrightarrow> toc_weight list' = 0"
proof (induction headings arbitrary: list current)
  case Nil
  then show ?case by simp
next
  case (Cons h hs)
  then show ?case
    by (auto split: sum.splits dest: toc_weight_step)
qed

lemma toc_weight_as_list: "as_list markdown = Inr list \<Longrightarrow> toc_weight list = 0"
  by (auto simp add: as_list_def List_new_value bind_def split: sum.splits prod.splits
      dest: toc_weight_foldM)


text \<open>
  \<open>render_blocks(markdown, blocks, parent, options)\<close> with its \<open>forEach\<close> body
  \<open>render_block\<close>, the loop over the children of a quote, and
  \<open>render_list(markdown, list, options, level)\<close> with its loops over the entries and
  over the sublists of an entry. \<open>esc\<close> is \<open>options.should_escape\<close>; \<open>pat\<close> is
  \<open>options.paragraph_as_text\<close>, which \<open>render_list\<close> sets and clears, and every
  function returns it with the element it has filled. A list is a \<open>List\<close> of
  \<open>ListEntry\<close> values with \<open>List\<close>s as sublists: for any other value, whose fields
  the source would read as \<open>undefined\<close>, the result is a TypeError.
\<close>

function (sequential)
  render_blocks :: "html_module \<Rightarrow> options \<Rightarrow> MDDocument \<Rightarrow> bool \<Rightarrow> node list \<Rightarrow> html \<Rightarrow> bool
      \<Rightarrow> error + html \<times> bool"
  and render_block :: "html_module \<Rightarrow> options \<Rightarrow> MDDocument \<Rightarrow> bool \<Rightarrow> node \<Rightarrow> html \<Rightarrow> bool
      \<Rightarrow> error + html \<times> bool"
  and render_children :: "html_module \<Rightarrow> options \<Rightarrow> MDDocument \<Rightarrow> bool \<Rightarrow> node list \<Rightarrow> html \<Rightarrow> bool
      \<Rightarrow> error + html \<times> bool"
  and render_list :: "html_module \<Rightarrow> options \<Rightarrow> MDDocument \<Rightarrow> bool \<Rightarrow> node \<Rightarrow> nat \<Rightarrow> bool
      \<Rightarrow> error + html \<times> bool"
  and render_entries :: "html_module \<Rightarrow> options \<Rightarrow> MDDocument \<Rightarrow> bool \<Rightarrow> node list \<Rightarrow> html \<Rightarrow> nat
      \<Rightarrow> bool \<Rightarrow> error + html \<times> bool"
  and render_sublists :: "html_module \<Rightarrow> options \<Rightarrow> MDDocument \<Rightarrow> bool \<Rightarrow> node list \<Rightarrow> nat \<Rightarrow> bool
      \<Rightarrow> error + html list \<times> bool"
where
  "render_blocks lib opts markdown esc [] parent_el pat = Inr (parent_el, pat)"
| "render_blocks lib opts markdown esc (block # rest) parent_el pat =
     bind (render_block lib opts markdown esc block parent_el pat)
       (\<lambda>(parent_el, pat). render_blocks lib opts markdown esc rest parent_el pat)"
| "render_block lib opts markdown esc (Heading ns level) parent_el pat =
     (let heading = create_element level
      in bind (get_id (Heading ns level))
           (\<lambda>ident. bind (render_inline lib opts markdown esc False ns)
              (\<lambda>items. Inr (append_child parent_el
                               (RNode (fill_element (attr heading (js ''id'') (VString ident)) items)),
                             pat))))"
| "render_block lib opts markdown esc (Paragraph ns) parent_el pat =
     bind (render_inline lib opts markdown esc True ns)
       (\<lambda>items. if pat then Inr (fill_element parent_el items, pat)
                 else Inr (append_child parent_el
                             (RNode (fill_element (create_element (js ''p'')) items)), pat))"
| "render_block lib opts markdown esc (BlockCode code language) parent_el pat =
     bind (code_block opts code language)
       (\<lambda>pre. if block_code_class_name opts \<noteq> []
               then Inr (append_child parent_el
                           (RNode (append_child
                                     (attr (create_element (js ''div'')) (js ''class'')
                                        (VString (block_code_class_name opts)))
                                     (RNode pre))), pat)
               else Inr (append_child parent_el (RNode pre), pat))"
| "render_block lib opts markdown esc (BlockQuote ns) parent_el pat =
     bind (render_children lib opts markdown esc ns (create_element (js ''blockquote'')) pat)
       (\<lambda>(quote, pat). Inr (append_child parent_el (RNode quote), pat))"
| "render_block lib opts markdown esc (InlineHTML ns) parent_el pat =
     (if inline_html_enable opts
      then bind (render_inline lib opts markdown False True ns)
             (\<lambda>items.
                bind (mapM sanitize_raw
                        (parse_nodes lib
                           (concat (map (\<lambda>item. case item of RString s \<Rightarrow> s
                                                  | RNode h \<Rightarrow> node_html lib h) items))))
                  (\<lambda>nodes. Inr (fill_element parent_el (map RNode nodes), pat)))
      else bind (toString (InlineHTML ns))
             (\<lambda>s. bind (render_inline lib opts markdown esc True [Text s])
                (\<lambda>items. Inr (append_child parent_el
                                 (RNode (fill_element (create_element (js ''p'')) items)), pat))))"
| "render_block lib opts markdown esc (InlineLatex ns raw dm) parent_el pat =
     bind (render_latex lib opts esc (InlineLatex ns raw dm))
       (\<lambda>element.
          case element of
            RNode h \<Rightarrow>
              (if is_html_Text h \<and> \<not> is_html_Comment h \<and> \<not> pat
               then Inr (append_child parent_el
                           (RNode (append_child (create_element (js ''p'')) element)), pat)
               else Inr (append_child parent_el element, pat))
          | RString s \<Rightarrow> Inr (append_child parent_el element, pat))"
| "render_block lib opts markdown esc (List ns ord start) parent_el pat =
     bind (render_list lib opts markdown esc (List ns ord start) 0 pat)
       (\<lambda>(html_list, pat). Inr (append_child parent_el (RNode html_list), pat))"
| "render_block lib opts markdown esc (Table rows als) parent_el pat =
     bind (render_table_row lib opts markdown esc als
             (case rows of [] \<Rightarrow> None | head # body \<Rightarrow> Some head) True)
       (\<lambda>head_row.
          bind (mapM (\<lambda>row. render_table_row lib opts markdown esc als (Some row) False) (tl rows))
            (\<lambda>body_rows.
               bind (table_process opts
                       (append_child
                          (append_child
                             (attr (create_element (js ''table'')) (js ''role'') (VString (js ''table'')))
                             (RNode (append_child (create_element (js ''thead'')) (RNode head_row))))
                          (RNode (fill_element (create_element (js ''tbody'')) (map RNode body_rows)))))
                 (\<lambda>table. Inr (append_child parent_el (RNode table), pat))))"
| "render_block lib opts markdown esc (TableOfContents ns) parent_el pat =
     (case as_list markdown of
        Inl e \<Rightarrow> Inl e
      | Inr list \<Rightarrow>
          bind (render_list lib opts markdown esc list 0 pat)
            (\<lambda>(html_list, pat). Inr (append_child parent_el (RNode html_list), pat)))"
| "render_block lib opts markdown esc block parent_el pat =
     (case as_html block of
        Some result \<Rightarrow> bind result (\<lambda>h. Inr (append_child parent_el (RNode h), pat))
      | None \<Rightarrow> Inr (parent_el, pat))"
| "render_children lib opts markdown esc [] quote pat = Inr (quote, pat)"
| "render_children lib opts markdown esc (child # rest) quote pat =
     (if is_block child
      then bind (render_blocks lib opts markdown esc [child] quote pat)
             (\<lambda>(quote, pat). render_children lib opts markdown esc rest quote pat)
      else bind (render_inline lib opts markdown esc True [child])
             (\<lambda>items. render_children lib opts markdown esc rest (fill_element quote items) pat))"
| "render_list lib opts markdown esc (List ns ordered ordered_start) level pat =
     (let level = (if level > 3 then 3 else level);
          html_list = create_element (if ordered then js ''ol'' else js ''ul'');
          html_list = (if ordered \<and> ordered_start \<noteq> 1
                       then attr html_list (js ''start'') (VString (string_of_int ordered_start))
                       else html_list)
      in render_entries lib opts markdown esc ns html_list level pat)"
| "render_list lib opts markdown esc list level pat = Inl TypeError"
| "render_entries lib opts markdown esc [] html_list level pat = Inr (html_list, pat)"
| "render_entries lib opts markdown esc (ListEntry ns sublists checked # rest) html_list level pat =
     (let li = create_element (js ''li'');
          li = (case checked of
                  Some c \<Rightarrow>
                    (if checkbox_enable opts
                     then append_child (style li (js ''list-style-type'') (js ''none''))
                            (RNode (checkbox opts c))
                     else li)
                | None \<Rightarrow> li)
      in bind (render_blocks lib opts markdown esc ns li True)
           (\<lambda>(li, pat).
              bind (render_sublists lib opts markdown esc sublists (level + 1) False)
                (\<lambda>(lists, pat).
                   render_entries lib opts markdown esc rest
                     (append_child html_list (RNode (fill_element li (map RNode lists))))
                     level pat)))"
| "render_entries lib opts markdown esc (entry # rest) html_list level pat = Inl TypeError"
| "render_sublists lib opts markdown esc [] level pat = Inr ([], pat)"
| "render_sublists lib opts markdown esc (sublist # rest) level pat =
     bind (render_list lib opts markdown esc sublist level pat)
       (\<lambda>(html_list, pat).
          bind (render_sublists lib opts markdown esc rest level pat)
            (\<lambda>(lists, pat). Inr (html_list # lists, pat)))"
  by pat_completeness auto

termination
  by (relation "measures
    [\<lambda>x. case x of
        Inl (Inl (lib, opts, markdown, esc, ns, p, pat)) \<Rightarrow> sum_list (map toc_weight ns)
      | Inl (Inr (Inl (lib, opts, markdown, esc, n, p, pat))) \<Rightarrow> toc_weight n
      | Inl (Inr (Inr (lib, opts, markdown, esc, ns, p, pat))) \<Rightarrow> sum_list (map toc_weight ns)
      | Inr (Inl (lib, opts, markdown, esc, n, level, pat)) \<Rightarrow> toc_weight n
      | Inr (Inr (Inl (lib, opts, markdown, esc, ns, p, level, pat))) \<Rightarrow> sum_list (map toc_weight ns)
      | Inr (Inr (Inr (lib, opts, markdown, esc, ns, level, pat))) \<Rightarrow> sum_list (map toc_weight ns),
     \<lambda>x. case x of
        Inl (Inl (lib, opts, markdown, esc, ns, p, pat)) \<Rightarrow> size_list size ns
      | Inl (Inr (Inl (lib, opts, markdown, esc, n, p, pat))) \<Rightarrow> size n
      | Inl (Inr (Inr (lib, opts, markdown, esc, ns, p, pat))) \<Rightarrow> size_list size ns
      | Inr (Inl (lib, opts, markdown, esc, n, level, pat)) \<Rightarrow> size n
      | Inr (Inr (Inl (lib, opts, markdown, esc, ns, p, level, pat))) \<Rightarrow> size_list size ns
      | Inr (Inr (Inr (lib, opts, markdown, esc, ns, level, pat))) \<Rightarrow> size_list size ns,
     \<lambda>x. case x of
        Inl (Inl a) \<Rightarrow> 2
      | Inl (Inr (Inl a)) \<Rightarrow> 1
      | Inl (Inr (Inr a)) \<Rightarrow> 3
      | Inr (Inl a) \<Rightarrow> 0
      | Inr (Inr a) \<Rightarrow> 0]")
    (auto simp add: toc_weight_as_list)

subsection \<open>render_to_html and render\<close>

text \<open>
  \<open>render_to_html(markdown, options)\<close>, on the merged options: \<open>should_escape\<close> is
  set, the parent is \<open>options.parent\<close> when that is an \<open>html.Element\<close> and a new
  \<open>div\<close> otherwise.
\<close>

definition render_to_html :: "html_module \<Rightarrow> MDDocument \<Rightarrow> options \<Rightarrow> error + html" where
  "render_to_html lib markdown opts =
     (let parent_el = (case parent opts of
                         ParentElement element \<Rightarrow>
                           (if is_html_Element element then element
                            else create_element (js ''div''))
                       | _ \<Rightarrow> create_element (js ''div''))
      in bind (render_blocks lib opts markdown True (blocks markdown) parent_el
                 (paragraph_as_text opts))
           (\<lambda>(parent_el, pat). Inr (purge_empty_children lib parent_el)))"

text \<open>
  \<open>render(markdown, html_doc, options)\<close> returns \<open>options.parent\<close> when that is
  truthy, else a new \<open>div\<close> of the DOM document, after it has assigned the inner
  HTML of the rendered element to its \<open>innerHTML\<close>. The module is strict code: the
  assignment to a property of a primitive value throws a TypeError.
\<close>

datatype render_target = NewDiv | Given parent_value

definition render :: "html_module \<Rightarrow> MDDocument \<Rightarrow> options \<Rightarrow> error + render_target \<times> jstring" where
  "render lib markdown opts =
     (let doc_div = (case parent opts of
                       ParentAbsent \<Rightarrow> NewDiv
                     | ParentPrimitive truthy \<Rightarrow>
                         (if truthy then Given (ParentPrimitive truthy) else NewDiv)
                     | p \<Rightarrow> Given p)
      in bind (render_to_html lib markdown opts)
           (\<lambda>element.
              case doc_div of
                Given (ParentPrimitive truthy) \<Rightarrow> Inl TypeError
              | _ \<Rightarrow> Inr (doc_div, inner_html lib element)))"




subsection \<open>Documents that the renderer accepts\<close>





section \<open>Constructors and push: the properties\<close>

lemma is_ListEntry_pushed:
  "is_ListEntry (case x of
                   INode (ListEntry a b c) \<Rightarrow> ListEntry a b c
                 | INode (List a b c) \<Rightarrow> ListEntry [Text []] [List a b c] None
                 | _ \<Rightarrow> ListEntry (purge_linebreaks [item_node x]) [] None)"
  by (simp split: item.splits node.splits)

lemma is_ListEntry_wrapped:
  "is_ListEntry (case e of INode (ListEntry a b c) \<Rightarrow> ListEntry a b c
                 | _ \<Rightarrow> ListEntry (purge_linebreaks [item_node e]) [] None)"
  by (simp split: item.splits node.splits)

lemma List_pushes_entries:
  "list_all is_ListEntry ns \<Longrightarrow>
   \<exists>ns'. List_pushes (List ns ord st) xs = Inr (List ns' ord st) \<and> list_all is_ListEntry ns'"
proof (induction xs arbitrary: ns)
  case Nil
  then show ?case by simp
next
  case (Cons x xs)
  let ?e = "case x of
              INode (ListEntry a b c) \<Rightarrow> ListEntry a b c
            | INode (List a b c) \<Rightarrow> ListEntry [Text []] [List a b c] None
            | _ \<Rightarrow> ListEntry (purge_linebreaks [item_node x]) [] None"
  have "list_all is_ListEntry (ns @ [?e])"
    using Cons.prems is_ListEntry_pushed [of x] by simp
  from Cons.IH [OF this] show ?case
    by (auto simp add: List_push_value bind_def)
qed

lemma get_last_List:
  "get_last (List ns ord st) = (if ns = [] then None else Some (last ns))"
  by (simp add: get_last_def last_conv_nth)

text \<open>
  C8. Every child of a \<open>List\<close> is a \<open>ListEntry\<close>. The constructor returns a list
  whose nodes are the entries given, each one that is no \<open>ListEntry\<close> wrapped in a
  new \<open>ListEntry\<close> built from \<open>[entry]\<close>. A push appends one \<open>ListEntry\<close>: the pushed
  entry itself, or a fresh entry with the pushed \<open>List\<close> as its only sublist (and the
  content \<open>""\<close>), or a fresh entry built from \<open>[node]\<close> (\<open>ListEntry\<close> allows no
  linebreaks, so its constructor purges that array). After the constructor and any
  sequence of pushes all nodes are \<open>ListEntry\<close> values, and \<open>get_last\<close> returns the
  last of them, a \<open>ListEntry\<close>, unless the list is empty.
\<close>

theorem List_nodes_are_entries:
  "\<exists>ns0 ns.
     List_new entries ord start = Inr (List ns0 ord (case start of None \<Rightarrow> 1 | Some k \<Rightarrow> k))
     \<and> ns0 = map (\<lambda>e. case e of INode (ListEntry a b c) \<Rightarrow> ListEntry a b c
                       | _ \<Rightarrow> ListEntry (purge_linebreaks [item_node e]) [] None) entries
     \<and> list_all is_ListEntry ns0
     \<and> List_push (List ns0 ord (case start of None \<Rightarrow> 1 | Some k \<Rightarrow> k)) x
          = Inr (List (ns0 @ [case x of
                   INode (ListEntry a b c) \<Rightarrow> ListEntry a b c
                 | INode (List a b c) \<Rightarrow> ListEntry [Text []] [List a b c] None
                 | _ \<Rightarrow> ListEntry (purge_linebreaks [item_node x]) [] None])
                 ord (case start of None \<Rightarrow> 1 | Some k \<Rightarrow> k))
     \<and> List_pushes (List ns0 ord (case start of None \<Rightarrow> 1 | Some k \<Rightarrow> k)) xs
          = Inr (List ns ord (case start of None \<Rightarrow> 1 | Some k \<Rightarrow> k))
     \<and> list_all is_ListEntry ns
     \<and> get_last (List ns ord (case start of None \<Rightarrow> 1 | Some k \<Rightarrow> k))
          = (if ns = [] then None else Some (last ns))
     \<and> (case get_last (List ns ord (case start of None \<Rightarrow> 1 | Some k \<Rightarrow> k)) of
           None \<Rightarrow> ns = [] | Some e \<Rightarrow> is_ListEntry e)"
proof -
  let ?st = "case start of None \<Rightarrow> 1 | Some k \<Rightarrow> k"
  let ?ns0 = "map (\<lambda>e. case e of INode (ListEntry a b c) \<Rightarrow> ListEntry a b c
                        | _ \<Rightarrow> ListEntry (purge_linebreaks [item_node e]) [] None) entries"
  have a: "list_all is_ListEntry ?ns0"
    using is_ListEntry_wrapped by (simp add: list_all_iff)
  from List_pushes_entries [OF a, of ord ?st xs]
  obtain ns where ns: "List_pushes (List ?ns0 ord ?st) xs = Inr (List ns ord ?st)"
     "list_all is_ListEntry ns" by blast
  have "case get_last (List ns ord ?st) of None \<Rightarrow> ns = [] | Some e \<Rightarrow> is_ListEntry e"
    using ns(2) by (simp add: get_last_List list_all_iff)
  with a ns show ?thesis
    using List_new_value [of entries ord start] get_last_List [of ns ord ?st]
      List_push_value [of ?ns0 ord ?st x] by blast
qed

theorem List_nodes_are_entries_witness:
  "\<exists>ns. List_pushes (List [ListEntry [Text (js ''a'')] [] None] True 1)
            [INode (List [] True 1), IString (js ''b'')] = Inr (List ns True 1)
     \<and> length ns = 3 \<and> list_all is_ListEntry ns
     \<and> get_last (List ns True 1)
          = Some (ListEntry [Text (js ''b'')] [] None)"
proof -
  from List_nodes_are_entries [of "[INode (Text (js ''a''))]" True None "IString []"
      "[INode (List [] True 1), IString (js ''b'')]"]
  obtain ns where
    ns: "List_pushes (List [ListEntry [Text (js ''a'')] [] None] True 1)
            [INode (List [] True 1), IString (js ''b'')] = Inr (List ns True 1)"
    by (auto simp add: purge_linebreaks_def item_node_def js_def)
  then have "ns = [ListEntry [Text (js ''a'')] [] None,
                  ListEntry [Text []] [List [] True 1] None,
                  ListEntry [Text (js ''b'')] [] None]"
    by (simp add: List_push_value bind_def purge_linebreaks_def item_node_def js_def)
  with ns show ?thesis by (simp add: get_last_List)
qed

text \<open>
  C9. A \<open>Link\<close> or an \<open>Image\<close> built with a title that is \<open>undefined\<close> or \<open>""\<close>:
  the constructor replaces the title by \<open>new Text(url)\<close> and hands it to the
  \<open>Element\<close> constructor, which wraps strings and \<open>Element\<close>s only. \<open>Text\<close> extends
  \<open>Node\<close>, not \<open>Element\<close>, so \<open>nodes.map\<close> is called on the \<open>Text\<close> and the
  constructor throws a TypeError: no node is built.
\<close>

theorem Link_default_title_throws:
  "Link_new u AUndefined tip r = Inl TypeError
   \<and> Link_new u (AString []) tip r = Inl TypeError
   \<and> Image_new u AUndefined tip r = Inl TypeError
   \<and> Image_new u (AString []) tip r = Inl TypeError"
  by (simp add: Link_new_def Image_new_def Link_fields_def Element_new_def bind_def)

text \<open>
  The constructor of a container that allows no linebreaks purges them from its
  initial nodes.
\<close>

lemma Element_new_purges:
  "Element_new arg False = Inr ns \<Longrightarrow> \<not> (\<exists>n \<in> set ns. is_Text n \<and> is_linebreak n)"
  by (auto simp add: Element_new_def purge_linebreaks_def split: sum.splits if_splits)

text \<open>
  C6. \<open>push\<close> does not look at \<open>allow_linebreaks\<close> (the constructor does not even
  store it): pushing \<open>LINEBREAK\<close> into a \<open>Strikethrough\<close>, \<open>Highlight\<close>, \<open>Spoiler\<close>,
  \<open>Link\<close> or \<open>Heading\<close> built empty leaves the linebreak among its nodes.
\<close>

theorem push_keeps_linebreak:
  "is_Text LINEBREAK \<and> is_linebreak LINEBREAK
   \<and> bind (Strikethrough_new (AArray [])) (\<lambda>e. Element_push e (INode LINEBREAK))
        = Inr (Strikethrough [LINEBREAK])
   \<and> bind (Highlight_new (AArray [])) (\<lambda>e. Element_push e (INode LINEBREAK))
        = Inr (Highlight [LINEBREAK])
   \<and> bind (Spoiler_new (AArray [])) (\<lambda>e. Element_push e (INode LINEBREAK))
        = Inr (Spoiler [LINEBREAK])
   \<and> bind (Link_new (js ''u'') (AArray [IString (js ''t'')]) None None)
          (\<lambda>e. Element_push e (IString (js ''  \<newline>'')))
        = Inr (Link [Text (js ''t''), LINEBREAK] \<lparr>url = Some (js ''u''), tooltip = None\<rparr> [])
   \<and> bind (Heading_new (AArray []) (js ''h1'')) (\<lambda>e. Element_push e (INode LINEBREAK))
        = Inr (Heading [LINEBREAK] (js ''h1''))"
  by (simp add: LINEBREAK_def Strikethrough_new_def Highlight_new_def Spoiler_new_def
      Link_new_def Link_fields_def Heading_new_def Element_new_def bind_def
      purge_linebreaks_def item_node_def toLowerCase_def js_def)
section \<open>Serialization: the properties\<close>

lemma mapM_Inr:
  "(\<And>x. x \<in> set xs \<Longrightarrow> \<exists>y. f x = Inr y) \<Longrightarrow> \<exists>ys. mapM f xs = Inr ys"
proof (induction xs)
  case Nil
  then show ?case by simp
next
  case (Cons a xs)
  from Cons.prems obtain y where "f a = Inr y" by force
  moreover from Cons obtain ys where "mapM f xs = Inr ys" by force
  ultimately show ?case by simp
qed

lemma bind_mapM_total:
  "(\<And>x. x \<in> set ns \<Longrightarrow> \<exists>s. f x = Inr s) \<Longrightarrow> (\<And>ss. \<exists>s. g ss = Inr s)
   \<Longrightarrow> \<exists>s. bind (mapM f ns) g = Inr s"
  using mapM_Inr [of ns f] by (auto simp add: bind_def)

lemma well_formed_nodes:
  "well_formed n \<Longrightarrow> nodes_of n = Some ns \<Longrightarrow> x \<in> set ns \<Longrightarrow> well_formed x"
  by (cases n) (auto simp add: list_all_iff split: list.splits)

lemma toString_total: "well_formed n \<Longrightarrow> \<exists>s. toString n = Inr s"
proof (induction n rule: toString.induct)
  case (14 ns level)
  then have "\<exists>ss. mapM toString ns = Inr ss"
    by (intro mapM_Inr) (auto simp add: list_all_iff)
  with 14(2) show ?case by (auto simp add: bind_def valid_level_def Let_def)
next
  case (20 ns sublists checked)
  then have a: "\<exists>ss. mapM toString ns = Inr ss"
    by (intro mapM_Inr) (auto simp add: list_all_iff)
  then obtain ss where ss: "mapM toString ns = Inr ss" by blast
  have "\<exists>ss. mapM toString sublists = Inr ss"
  proof (cases "sublists = []")
    case True
    then show ?thesis by simp
  next
    case False
    show ?thesis
      apply (rule mapM_Inr)
      using 20(2) [OF ss refl refl False] 20(3) apply (auto simp add: list_all_iff)
      done
  qed
  with ss show ?case by (auto simp add: bind_def Let_def)
next
  case (23 rows als)
  from 23(3) obtain head body where rows: "rows = head # body" and el: "is_Element head"
    and wf: "list_all well_formed rows"
    by (auto split: list.splits)
  from el obtain columns where cols: "nodes_of head = Some columns"
    by (cases head) auto
  have "\<exists>ss. mapM toString columns = Inr ss"
    apply (rule mapM_Inr)
    using 23(1) [OF rows cols] well_formed_nodes [OF _ cols] wf rows apply auto
    done
  then obtain hs where hs: "mapM toString columns = Inr hs" by blast
  have "\<exists>ss. mapM toString body = Inr ss"
    apply (rule mapM_Inr)
    using 23(2) [OF rows cols hs] wf rows apply (auto simp add: list_all_iff)
    done
  with hs rows cols show ?case by (auto simp add: bind_def)
qed (auto intro!: bind_mapM_total simp add: Let_def list_all_iff)


lemma refs_ok_simps [simp]:
  "refs_ok (RArray rs) = list_all is_RObject rs"
  "refs_ok RUndefined"
  "refs_ok (RObject name r)"
  by (simp_all add: refs_ok_def)

lemma flat_objects:
  "(\<And>x. x \<in> set xs \<Longrightarrow> refs_ok x) \<Longrightarrow>
   list_all is_RObject (flat (filter (\<lambda>node. node \<noteq> RUndefined) xs))"
proof (induction xs)
  case Nil
  then show ?case by (simp add: flat_def)
next
  case (Cons a xs)
  then have "list_all is_RObject (flat (filter (\<lambda>node. node \<noteq> RUndefined) xs))" by simp
  moreover have "refs_ok a" using Cons.prems by simp
  ultimately show ?case
    by (cases a) (simp_all add: flat_def)
qed

lemma flat_Nil: "flat [] = []"
  by (simp add: flat_def)

lemma get_references_ok: "refs_ok (get_references n)"
  by (induction n) (auto simp add: get_references.simps flat_Nil intro!: flat_objects)

lemma get_references_block:
  "is_Element b \<Longrightarrow> \<not> is_Link b \<Longrightarrow>
   \<exists>rs. get_references b = RArray rs \<and> list_all is_RObject rs"
  using get_references_ok [of b]
  by (cases b) (auto simp add: get_references.simps)

lemma fold_references_objects:
  "list_all (\<lambda>b. is_Element b \<and> \<not> is_Link b) bs \<Longrightarrow> list_all is_RObject acc \<Longrightarrow>
   list_all is_RObject (fold (\<lambda>block acc. concat_refs acc (get_references block)) bs acc)"
proof (induction bs arbitrary: acc)
  case Nil
  then show ?case by simp
next
  case (Cons b bs)
  from Cons.prems obtain rs where "get_references b = RArray rs" "list_all is_RObject rs"
    using get_references_block [of b] by auto
  with Cons show ?case by (simp add: concat_refs_def)
qed

lemma mapM_ref_object: "list_all is_RObject rs \<Longrightarrow> \<exists>os. mapM ref_object rs = Inr os"
  by (rule mapM_Inr) (auto simp add: list_all_iff ref_object_def split: refs.splits)


text \<open>
  The claim C1 as it is stated fails: a \<open>Heading\<close> that stores a level other than
  \<open>h1\<close> to \<open>h6\<close> makes \<open>Heading.toString\<close>, and with it the serialization of the
  document, throw the error of the \<open>default\<close> branch.
\<close>

theorem Heading_invalid_level_throws:
  "MDDocument_toString \<lparr>blocks = [Heading [Text (js ''A'')] (js ''h7'')], references = []\<rparr>
     = Inl (Error (js ''lib.md ;; Heading#toString(): invalid heading \"h7\".''))"
  by (simp add: MDDocument_toString_def bind_def js_def)

text \<open>
  A block that is no \<open>Element\<close>, the \<open>HORIZONTAL_RULE\<close> object, makes
  \<open>get_references\<close> return \<open>undefined\<close>; \<open>concat\<close> stores it in \<open>references\<close>, and
  \<open>ref.ref.url\<close> then throws a TypeError.
\<close>

lemma HORIZONTAL_RULE_block_throws:
  "MDDocument_toString \<lparr>blocks = [HORIZONTAL_RULE], references = []\<rparr> = Inl TypeError"
  by (simp add: MDDocument_toString_def bind_def js_def get_references.simps concat_refs_def
      ref_object_def)

text \<open>
  C1, amended. For every document whose trees are well formed (each \<open>Heading\<close>
  stores one of the levels \<open>h1\<close> to \<open>h6\<close>, each \<open>Table\<close> has its head row) and whose
  blocks are \<open>Element\<close>s other than \<open>Link\<close> and \<open>Image\<close>, \<open>MDDocument.toString\<close>
  returns a string: it does not throw.
\<close>

theorem MDDocument_toString_total:
  assumes "list_all well_formed (blocks doc)"
    and "list_all (\<lambda>b. is_Element b \<and> \<not> is_Link b) (blocks doc)"
  shows "\<exists>s. MDDocument_toString doc = Inr s"
proof -
  have "\<exists>ss. mapM (\<lambda>block. bind (toString block) (\<lambda>s. Inr (s @ js ''\<newline>''))) (blocks doc) = Inr ss"
    apply (rule mapM_Inr)
    using assms(1) toString_total apply (fastforce simp add: list_all_iff bind_def)
    done
  then obtain ss where ss:
    "mapM (\<lambda>block. bind (toString block) (\<lambda>s. Inr (s @ js ''\<newline>''))) (blocks doc) = Inr ss"
    by blast
  have "list_all is_RObject (map (\<lambda>(name, r). RObject name r) (references doc))"
    by (auto simp add: list_all_iff)
  from fold_references_objects [OF assms(2) this] mapM_ref_object
  obtain os where "mapM ref_object
      (fold (\<lambda>block acc. concat_refs acc (get_references block)) (blocks doc)
         (map (\<lambda>(name, r). RObject name r) (references doc))) = Inr os"
    by blast
  with ss show ?thesis
    by (simp add: MDDocument_toString_def bind_def Let_def)
qed

theorem MDDocument_toString_total_witness:
  "\<exists>s. MDDocument_toString
      \<lparr>blocks = [Heading [Text (js ''A'')] (js ''h1''),
                 Paragraph [Link [Text (js ''t'')] \<lparr>url = Some (js ''u''), tooltip = None\<rparr> (js ''r'')],
                 Table [TableRow [TableEntry [Text (js ''c'')]]] [LEFT]],
       references = [(js ''home'', \<lparr>url = Some (js ''https://ex.com''), tooltip = Some (js ''Home'')\<rparr>)]\<rparr>
     = Inr s"
  by (rule MDDocument_toString_total) (simp_all add: valid_level_def)
section \<open>Heading identifiers: the properties\<close>

lemma hex_digit_nat: "n < 16 \<Longrightarrow> unat (hex_digit n) = (if n < 10 then 48 + n else 55 + n)"
  by (simp add: hex_digit_def unat_word_ariths unat_of_nat)

lemma hex_digit_upper: "n < 16 \<Longrightarrow> is_hex_upper (hex_digit n)"
  by (auto simp add: is_hex_upper_def is_digit_def word_le_nat_alt hex_digit_nat)

lemma hex_digit_not_percent: "n < 16 \<Longrightarrow> hex_digit n \<noteq> 37"
  using hex_digit_upper [of n] by (auto simp add: is_hex_upper_def is_digit_def)

lemma enc_ok_percent: "b < 256 \<Longrightarrow> enc_ok (percent b @ r) = enc_ok r"
  by (simp add: percent_def hex_digit_upper)

lemma utf8_bytes: "cp < 1114112 \<Longrightarrow> b \<in> set (utf8 cp) \<Longrightarrow> b < 256"
  by (auto simp add: utf8_def split: if_splits)

lemma enc_ok_percents: "(\<And>b. b \<in> set bs \<Longrightarrow> b < 256) \<Longrightarrow> enc_ok (concat (map percent bs) @ r) = enc_ok r"
  by (induction bs) (simp_all add: enc_ok_percent del: enc_ok.simps)

lemma enc_ok_escape: "cp < 1114112 \<Longrightarrow> enc_ok (escape cp @ r) = enc_ok r"
  unfolding escape_def by (rule enc_ok_percents) (rule utf8_bytes)

lemma unescaped_not_percent: "uri_unescaped c \<Longrightarrow> c \<noteq> 37"
  by (auto simp add: uri_unescaped_def is_upper_def is_lower_def is_digit_def uri_punctuation_def js_def)

lemma surrogate_pair_bound:
  "is_lead_surrogate c \<Longrightarrow> is_trail_surrogate d \<Longrightarrow>
   65536 + (unat c - 55296) * 1024 + (unat d - 56320) < 1114112"
  by (auto simp add: is_lead_surrogate_def is_trail_surrogate_def word_le_nat_alt)

lemma unat_unit_bound: "unat (c :: 16 word) < 1114112"
  using unsigned_less [of c, where 'a = nat] by simp

lemma encodeURI_enc_ok: "encodeURI s = Inr e \<Longrightarrow> enc_ok e"
proof (induction s arbitrary: e rule: encodeURI.induct)
  case 1
  then show ?case by simp
next
  case (2 c cs)
  show ?case
  proof (cases "uri_unescaped c")
    case True
    with "2.prems" "2.IH"(1) show ?thesis
      by (auto simp add: bind_def unescaped_not_percent split: sum.splits)
  next
    case False
    show ?thesis
    proof (cases "is_lead_surrogate c")
      case True
      with False "2.prems" obtain d ds r where cs: "cs = d # ds" and d: "is_trail_surrogate d"
        and r: "encodeURI ds = Inr r"
        and e: "e = escape (65536 + (unat c - 55296) * 1024 + (unat d - 56320)) @ r"
        by (auto simp add: bind_def split: list.splits if_splits sum.splits)
      from "2.IH"(2) [OF False True cs d r] have "enc_ok r" .
      with e show ?thesis
        by (simp add: enc_ok_escape [OF surrogate_pair_bound [OF True d]] del: enc_ok.simps)
    next
      case nl: False
      with False "2.prems" obtain r where r: "encodeURI cs = Inr r" and e: "e = escape (unat c) @ r"
        and nt: "\<not> is_trail_surrogate c"
        by (auto simp add: bind_def split: if_splits sum.splits)
      from "2.IH"(3) [OF False nl nt r] have "enc_ok r" .
      with e show ?thesis
        by (simp add: enc_ok_escape [OF unat_unit_bound] del: enc_ok.simps)
    qed
  qed
qed


lemma hex_upper_not_percent: "is_hex_upper h \<Longrightarrow> h \<noteq> 37"
  by (auto simp add: is_hex_upper_def is_digit_def)

lemma replace_enc_ok: "enc_ok e \<Longrightarrow> enc_ok (replace_pct20 e)"
proof (induction e rule: enc_ok.induct)
  case 1
  then show ?case by simp
next
  case (2 c cs)
  show ?case
  proof (cases "c = 37")
    case True
    with "2.prems" obtain h1 h2 rest where cs: "cs = h1 # h2 # rest"
      and h: "is_hex_upper h1" "is_hex_upper h2" and rest: "enc_ok rest"
      by (auto split: list.splits)
    from "2.IH"(1) [OF True cs refl rest] have "enc_ok (replace_pct20 rest)" .
    with True cs h show ?thesis
      by (auto simp add: hex_upper_not_percent uri_unescaped_def uri_punctuation_def js_def)
  next
    case False
    with 2 show ?thesis by simp
  qed
qed

lemma lower_unit_percent: "(lower_unit c = 37) = (c = 37)"
  by (auto simp add: lower_unit_def)

lemma lower_unit_nat:
  "unat (lower_unit c) = (if 65 \<le> unat c \<and> unat c \<le> 90 then unat c + 32 else unat c)"
  by (auto simp add: lower_unit_def word_le_nat_alt unat_word_ariths)

lemma lower_hex: "is_hex_upper h \<Longrightarrow> is_hex_lower (lower_unit h)"
  unfolding is_hex_upper_def is_hex_lower_def is_digit_def
  by (auto simp add: word_le_nat_alt lower_unit_nat)

lemma punctuation_nat:
  "uri_punctuation c = (unat c \<in> {59, 47, 63, 58, 64, 38, 61, 43, 36, 44, 45, 95, 46, 33, 126,
     42, 39, 40, 41, 35})"
  unfolding uri_punctuation_def js_def
  by (simp add: word_unat_eq_iff)

lemma lower_unescaped:
  "uri_unescaped c \<Longrightarrow>
   is_lower (lower_unit c) \<or> is_digit (lower_unit c) \<or> uri_punctuation (lower_unit c)"
  unfolding uri_unescaped_def is_upper_def is_lower_def is_digit_def punctuation_nat
  by (auto simp add: word_le_nat_alt lower_unit_nat)

lemma lower_enc_ok: "enc_ok e \<Longrightarrow> id_ok (toLowerCase e)"
proof (induction e rule: enc_ok.induct)
  case 1
  then show ?case by (simp add: toLowerCase_def)
next
  case (2 c cs)
  show ?case
  proof (cases "c = 37")
    case True
    with "2.prems" obtain h1 h2 rest where cs: "cs = h1 # h2 # rest"
      and h: "is_hex_upper h1" "is_hex_upper h2" and rest: "enc_ok rest"
      by (auto split: list.splits)
    from "2.IH"(1) [OF True cs refl rest] have "id_ok (toLowerCase rest)" .
    with True cs h show ?thesis
      by (simp add: toLowerCase_def lower_unit_percent lower_hex)
  next
    case False
    with 2 show ?thesis
      using lower_unescaped [of c] by (simp add: toLowerCase_def lower_unit_percent)
  qed
qed


text \<open>
  The claim C5 as it is stated fails: \<open>encodeURI\<close> leaves its reserved characters and
  marks as they are, so the identifier of the heading \<open>a?\<close> is \<open>a?\<close>, which is
  none of a lower-case letter, a digit, \<open>-\<close> or an encoded byte.
\<close>

theorem get_id_keeps_question_mark:
  "get_id (Heading [Text (js ''a?'')] (js ''h1'')) = Inr (js ''a?'') \<and> \<not> spec_id_ok (js ''a?'')"
  by (simp add: get_id_def as_plain_text.simps bind_def js_def uri_unescaped_def is_upper_def
      is_lower_def is_digit_def uri_punctuation_def toLocaleLowerCase_def toLowerCase_def
      lower_unit_def)

text \<open>
  C5, amended. \<open>get_id\<close> of a heading is \<open>encodeURI\<close> of its plain text with every
  \<open>%20\<close> replaced by \<open>-\<close>, lowered; it reads the heading and changes nothing, so a
  second call returns the same. When it returns a string (it throws where
  \<open>as_plain_text\<close> or \<open>encodeURI\<close> does), the string consists of lower-case letters,
  digits, \<open>%\<close> with two lower-case hexadecimal digits, and the characters
  \<open>; / ? : @ & = + $ , - _ . ! ~ * ' ( ) #\<close> that \<open>encodeURI\<close> does not escape.
\<close>

theorem get_id_characters:
  "get_id (Heading ns level)
     = bind (as_plain_text (Heading ns level))
         (\<lambda>plain. bind (encodeURI plain)
            (\<lambda>encoded. Inr (toLowerCase (replace_pct20 encoded))))
   \<and> (\<forall>s. get_id (Heading ns level) = Inr s \<longrightarrow> id_ok s)"
proof (intro conjI allI impI)
  show "get_id (Heading ns level)
     = bind (as_plain_text (Heading ns level))
         (\<lambda>plain. bind (encodeURI plain)
            (\<lambda>encoded. Inr (toLowerCase (replace_pct20 encoded))))"
    by (simp add: get_id_def toLocaleLowerCase_def)
next
  fix s
  assume "get_id (Heading ns level) = Inr s"
  then obtain plain encoded where "encodeURI plain = Inr encoded"
    and s: "s = toLowerCase (replace_pct20 encoded)"
    by (auto simp add: get_id_def bind_def toLocaleLowerCase_def split: sum.splits)
  then have "enc_ok (replace_pct20 encoded)"
    by (intro replace_enc_ok encodeURI_enc_ok)
  then show "id_ok s" unfolding s by (rule lower_enc_ok)
qed

theorem get_id_characters_witness:
  "get_id (Heading [Text (js ''A b?''), Bold [Text [0xE9]]] (js ''h2'')) = Inr (js ''a-b?%c3%a9'')
   \<and> id_ok (js ''a-b?%c3%a9'')"
proof -
  have "get_id (Heading [Text (js ''A b?''), Bold [Text [0xE9]]] (js ''h2'')) = Inr (js ''a-b?%c3%a9'')"
    by (simp add: get_id_def as_plain_text.simps bind_def js_def uri_unescaped_def is_upper_def
        is_lower_def is_digit_def uri_punctuation_def toLocaleLowerCase_def toLowerCase_def
        lower_unit_def is_lead_surrogate_def is_trail_surrogate_def escape_def utf8_def
        percent_def hex_digit_def)
  with get_id_characters show ?thesis by blast
qed
section \<open>JSON: the properties\<close>

text \<open>
  C4. \<open>from_json(to_json(d)) = d\<close> needs \<open>to_json(d)\<close> first. For a document whose
  table holds a \<open>Comment\<close> in a cell, \<open>TableEntry.toJSON\<close> calls \<open>node.toJSON()\<close> on
  the \<open>Comment\<close>, which has no such method: \<open>to_json\<close> throws a TypeError, and there
  is nothing to decode.
\<close>

theorem toJSON_comment_in_table_throws:
  "MDDocument_toJSON
     \<lparr>blocks = [Table [TableRow [TableEntry [Text (js ''a'')]],
                        TableRow [TableEntry [Comment [Text (js ''x'')]]]] [NONE]],
      references = []\<rparr>
   = Inl TypeError"
  by (simp add: MDDocument_toJSON_def bind_def)

section \<open>The renderer: the properties\<close>















section \<open>The table of contents as a list\<close>

lemma get_at_List [simp]:
  "get_at (List ns ord start) (i # p) = (if i < length ns then get_at (ns ! i) p else None)"
  by simp

lemma get_at_ListEntry [simp]:
  "get_at (ListEntry ns subs c) (i # p) = (if i < length subs then get_at (subs ! i) p else None)"
  by simp

lemma update_at_List [simp]:
  "update_at (List ns ord start) (i # p) new =
     (if i < length ns then List (ns[i := update_at (ns ! i) p new]) ord start
      else List ns ord start)"
  by simp

lemma update_at_ListEntry [simp]:
  "update_at (ListEntry ns subs c) (i # p) new =
     (if i < length subs then ListEntry ns (subs[i := update_at (subs ! i) p new]) c
      else ListEntry ns subs c)"
  by simp

declare get_at.simps(2) [simp del] update_at.simps(2) [simp del]































section \<open>When rendering returns\<close>




















end
